theory Spec2Isabelle
  imports Main
begin

section \<open>JavaScript values\<close>

text \<open>
  The values that travel through the bridge are the results of \<^verbatim>\<open>JSON.parse\<close>, the object
  literals the session builds, and \<^verbatim>\<open>undefined\<close>. An object is the list of its own
  properties in the order \<^verbatim>\<open>JSON.stringify\<close> and the spread operator enumerate them.
  Numbers are whole numbers of the size \<^verbatim>\<open>JSON.stringify\<close> writes digit by digit (below
  \<open>10^21\<close>; the only numeric field of the protocol is a loop count); a \<^verbatim>\<open>Date\<close> is held
  as its epoch milliseconds.
\<close>

datatype json =
    JUndefined
  | JNull
  | JBool bool
  | JNum int
  | JString string
  | JArray "json list"
  | JObject "(string \<times> json) list"

type_synonym obj = "(string \<times> json) list"

text \<open>Reading a property of an object: \<^verbatim>\<open>o[k]\<close>, \<^verbatim>\<open>undefined\<close> when \<open>k\<close> is not a key.\<close>

definition get :: "obj \<Rightarrow> string \<Rightarrow> json" where
  "get ob k = (case map_of ob k of None \<Rightarrow> JUndefined | Some v \<Rightarrow> v)"

definition has :: "obj \<Rightarrow> string \<Rightarrow> bool" where
  "has ob k = (k \<in> fst ` set ob)"

text \<open>
  Own property keys are enumerated with the array indices first, in ascending numeric
  order, and then the other keys in the order of their creation. An array index is the
  canonical decimal spelling of a number below \<open>2^32 - 1\<close>.
\<close>

definition is_digit :: "char \<Rightarrow> bool" where
  "is_digit c = (48 \<le> (of_char c :: nat) \<and> (of_char c :: nat) \<le> 57)"

definition digits_value :: "string \<Rightarrow> nat" where
  "digits_value s = foldl (\<lambda>n c. 10 * n + ((of_char c :: nat) - 48)) 0 s"

definition is_array_index :: "string \<Rightarrow> bool" where
  "is_array_index s =
     (s \<noteq> [] \<and> list_all is_digit s \<and> (s = ''0'' \<or> hd s \<noteq> CHR ''0'')
      \<and> digits_value s < 2 ^ 32 - 1)"

text \<open>Where a new array-index key goes: before the first key that is no array index, or
  a larger one.\<close>

fun insert_index :: "string \<Rightarrow> json \<Rightarrow> obj \<Rightarrow> obj" where
  "insert_index k v [] = [(k, v)]"
| "insert_index k v ((k', v') # rest) =
     (if is_array_index k' \<and> digits_value k' < digits_value k
      then (k', v') # insert_index k v rest
      else (k, v) # (k', v') # rest)"

fun overwrite :: "string \<Rightarrow> json \<Rightarrow> obj \<Rightarrow> obj" where
  "overwrite k v [] = []"
| "overwrite k v ((k', v') # rest) =
     (if k' = k then (k, v) # rest else (k', v') # overwrite k v rest)"

text \<open>Defining a property \<^verbatim>\<open>o[k] = v\<close>: an existing key keeps its place.\<close>

definition put :: "string \<Rightarrow> json \<Rightarrow> obj \<Rightarrow> obj" where
  "put k v ob =
     (if has ob k then overwrite k v ob
      else if is_array_index k then insert_index k v ob
      else ob @ [(k, v)])"

text \<open>The spread \<^verbatim>\<open>{ ...target, ...source }\<close>: every own property of the source is
  defined on the target, in the source's order.\<close>

definition spread :: "obj \<Rightarrow> obj \<Rightarrow> obj" where
  "spread target source = fold (\<lambda>(k, v). put k v) source target"

text \<open>An optional bag: \<^verbatim>\<open>...undefined\<close> spreads nothing.\<close>

definition spread_opt :: "obj \<Rightarrow> obj option \<Rightarrow> obj" where
  "spread_opt target bag = (case bag of None \<Rightarrow> target | Some source \<Rightarrow> spread target source)"

text \<open>Truthiness, \<^verbatim>\<open>a || b\<close> and \<^verbatim>\<open>a ?? b\<close>.\<close>

fun truthy :: "json \<Rightarrow> bool" where
  "truthy JUndefined = False"
| "truthy JNull = False"
| "truthy (JBool b) = b"
| "truthy (JNum n) = (n \<noteq> 0)"
| "truthy (JString s) = (s \<noteq> [])"
| "truthy (JArray xs) = True"
| "truthy (JObject kvs) = True"

definition or_else :: "json \<Rightarrow> json \<Rightarrow> json" where
  "or_else a b = (if truthy a then a else b)"

definition nullish :: "json \<Rightarrow> bool" where
  "nullish v = (v = JUndefined \<or> v = JNull)"

definition coalesce :: "json \<Rightarrow> json \<Rightarrow> json" where
  "coalesce a b = (if nullish a then b else a)"

text \<open>
  A thrown \<^verbatim>\<open>Error\<close> is the object carrying its name and message. Reading a property
  \<^verbatim>\<open>v.k\<close> throws a \<^verbatim>\<open>TypeError\<close> on \<^verbatim>\<open>undefined\<close> and \<^verbatim>\<open>null\<close>; a primitive or an
  array has none of the property names this program reads, so the read gives
  \<^verbatim>\<open>undefined\<close>. \<open>Inl\<close> carries the thrown value.
\<close>

definition js_error :: "string \<Rightarrow> string \<Rightarrow> json" where
  "js_error name msg = JObject [(''name'', JString name), (''message'', JString msg)]"

definition cannot_read :: "string \<Rightarrow> string \<Rightarrow> json" where
  "cannot_read what k =
     js_error ''TypeError'' (''Cannot read properties of '' @ what @ '' (reading '' @ [CHR 0x27] @ k @ [CHR 0x27] @ '')'')"

fun member :: "json \<Rightarrow> string \<Rightarrow> json + json" where
  "member JUndefined k = Inl (cannot_read ''undefined'' k)"
| "member JNull k = Inl (cannot_read ''null'' k)"
| "member (JObject ob) k = Inr (get ob k)"
| "member v k = Inr JUndefined"

text \<open>Optional chaining \<^verbatim>\<open>v?.k\<close> never throws.\<close>

fun opt_member :: "json \<Rightarrow> string \<Rightarrow> json" where
  "opt_member (JObject ob) k = get ob k"
| "opt_member v k = JUndefined"

section \<open>\<^verbatim>\<open>JSON.stringify\<close>\<close>

definition digit_char :: "nat \<Rightarrow> char" where
  "digit_char n = ''0123456789abcdef'' ! n"

fun decimal :: "nat \<Rightarrow> string" where
  "decimal n = (if n < 10 then [digit_char n] else decimal (n div 10) @ [digit_char (n mod 10)])"

text \<open>The escapes of a string literal: the quote, the backslash, the five short escapes,
  and \<^verbatim>\<open>\u00xx\<close> for the other control characters.\<close>

definition escape_char :: "char \<Rightarrow> string" where
  "escape_char c =
     (if c = CHR 0x22 then [CHR 0x5C, CHR 0x22]
      else if c = CHR 0x5C then [CHR 0x5C, CHR 0x5C]
      else if c = CHR 0x08 then [CHR 0x5C, CHR ''b'']
      else if c = CHR 0x0C then [CHR 0x5C, CHR ''f'']
      else if c = CHR 0x0A then [CHR 0x5C, CHR ''n'']
      else if c = CHR 0x0D then [CHR 0x5C, CHR ''r'']
      else if c = CHR 0x09 then [CHR 0x5C, CHR ''t'']
      else if (of_char c :: nat) < 32
        then [CHR 0x5C, CHR ''u'', CHR ''0'', CHR ''0'',
              digit_char ((of_char c :: nat) div 16), digit_char ((of_char c :: nat) mod 16)]
      else [c])"

definition quote :: "string \<Rightarrow> string" where
  "quote s = [CHR 0x22] @ concat (map escape_char s) @ [CHR 0x22]"

definition commas :: "string list \<Rightarrow> string" where
  "commas xs = (case xs of [] \<Rightarrow> [] | x # rest \<Rightarrow> x @ concat (map (\<lambda>y. '','' @ y) rest))"

text \<open>
  A property whose value is \<^verbatim>\<open>undefined\<close> is left out of an object and written
  \<^verbatim>\<open>null\<close> in an array. At the top, \<^verbatim>\<open>JSON.stringify(undefined)\<close> is \<^verbatim>\<open>undefined\<close>,
  which a template literal prints as that word.
\<close>

fun JSON_stringify :: "json \<Rightarrow> string"
and members :: "(string \<times> json) list \<Rightarrow> string list"
and elements :: "json list \<Rightarrow> string list" where
  "JSON_stringify JUndefined = ''undefined''"
| "JSON_stringify JNull = ''null''"
| "JSON_stringify (JBool b) = (if b then ''true'' else ''false'')"
| "JSON_stringify (JNum i) = (if i < 0 then ''-'' else []) @ decimal (nat \<bar>i\<bar>)"
| "JSON_stringify (JString s) = quote s"
| "JSON_stringify (JArray xs) = ''['' @ commas (elements xs) @ '']''"
| "JSON_stringify (JObject kvs) = ''{'' @ commas (members kvs) @ ''}''"
| "members [] = []"
| "members ((k, v) # kvs) =
     (if v = JUndefined then members kvs
      else (quote k @ '':'' @ JSON_stringify v) # members kvs)"
| "elements [] = []"
| "elements (x # xs) = (if x = JUndefined then ''null'' else JSON_stringify x) # elements xs"

section \<open>The session engine (\<^verbatim>\<open>session.ts\<close>)\<close>

text \<open>
  What one \<^verbatim>\<open>ConversationRelaySession\<close> owns and touches: its session record, the bindings
  of its (child) logger, the connection's ready state and the frames handed to
  \<^verbatim>\<open>connection.send\<close>, and the lines written to the logger. A log line keeps the bindings
  of the logger that wrote it, its level, its merging object (\<^verbatim>\<open>undefined\<close> when the call
  has only a text) and its text.
\<close>

datatype level = Debug | Info | Warn | Error

datatype log_entry = Log "obj list" level json string

record engine =
  session :: obj
  logger :: "obj list"
  ready_open :: bool
  sent :: "string list"
  logs :: "log_entry list"

definition log :: "level \<Rightarrow> json \<Rightarrow> string \<Rightarrow> engine \<Rightarrow> engine" where
  "log lv payload text e = e\<lparr>logs := logs e @ [Log (logger e) lv payload text]\<rparr>"

text \<open>The constructor; \<open>now\<close> is what \<^verbatim>\<open>new Date()\<close> reads, \<open>is_open\<close> the state of the
  connection it is given.\<close>

definition ConversationRelaySession :: "int \<Rightarrow> bool \<Rightarrow> engine" where
  "ConversationRelaySession now is_open =
     \<lparr> session =
         [(''startTime'', JNum now),
          (''sessionId'', JString ''''),
          (''callSid'', JString ''''),
          (''accountSid'', JString ''''),
          (''from'', JString ''''),
          (''to'', JString ''''),
          (''direction'', JString ''inbound''),
          (''customParameters'', JObject [])],
       logger = [],
       ready_open = is_open,
       sent = [],
       logs = [] \<rparr>"

subsection \<open>Outbound operations\<close>

definition send :: "json \<Rightarrow> engine \<Rightarrow> engine" where
  "send message e =
     (if ready_open e then e\<lparr>sent := sent e @ [JSON_stringify message]\<rparr>
      else log Warn JUndefined ''WebSocket is not open. Message not sent: [object Object]1'' e)"

text \<open>The object literals of the five operations. \<open>lastArg\<close> (the parameter \<^verbatim>\<open>last\<close>) is \<open>None\<close> when the
  caller leaves it out, and then defaults to \<^verbatim>\<open>false\<close>.\<close>

definition text_message :: "string \<Rightarrow> bool option \<Rightarrow> obj option \<Rightarrow> obj" where
  "text_message token lastArg additional =
     spread_opt
       [(''type'', JString ''text''),
        (''token'', JString token),
        (''last'', JBool (case lastArg of None \<Rightarrow> False | Some b \<Rightarrow> b))]
       additional"

definition play_message :: "string \<Rightarrow> obj option \<Rightarrow> obj" where
  "play_message source additional =
     spread_opt [(''type'', JString ''play''), (''source'', JString source)] additional"

definition sendDigits_message :: "string \<Rightarrow> obj" where
  "sendDigits_message digits = [(''type'', JString ''sendDigits''), (''digits'', JString digits)]"

definition language_message :: "obj \<Rightarrow> obj" where
  "language_message language = spread [(''type'', JString ''language'')] language"

definition end_message :: "string option \<Rightarrow> obj" where
  "end_message handoffData =
     [(''type'', JString ''end''),
      (''handoffData'', (case handoffData of None \<Rightarrow> JUndefined | Some d \<Rightarrow> JString d))]"

definition sendToken :: "string \<Rightarrow> bool option \<Rightarrow> obj option \<Rightarrow> engine \<Rightarrow> engine" where
  "sendToken token lastArg additional e =
     send (JObject (text_message token lastArg additional))
       (log Info JUndefined (''Sending token '' @ token) e)"

definition play :: "string \<Rightarrow> obj option \<Rightarrow> engine \<Rightarrow> engine" where
  "play source additional e = send (JObject (play_message source additional)) e"

definition sendDigits :: "string \<Rightarrow> engine \<Rightarrow> engine" where
  "sendDigits digits e = send (JObject (sendDigits_message digits)) e"

definition language :: "obj \<Rightarrow> engine \<Rightarrow> engine" where
  "language lang e = send (JObject (language_message lang)) e"

definition end_session :: "string option \<Rightarrow> engine \<Rightarrow> engine" where
  "end_session handoffData e = send (JObject (end_message handoffData)) e"

subsection \<open>Behaviour hooks\<close>

text \<open>
  A hook is an asynchronous method a subclass may override, and the registration callback
  given to \<^verbatim>\<open>start\<close> is a function of the same shape. It receives the message, may change
  whatever the engine holds, and its promise either resolves or rejects with a thrown
  value. Here a hook runs to its end once called; hooks that are suspended on outside
  input while another frame arrives come in a later section.
\<close>

datatype completion = Resolved | Rejected json

type_synonym hook = "json \<Rightarrow> engine \<Rightarrow> completion \<times> engine"

record hooks =
  handleSetup :: hook
  handlePrompt :: hook
  handleInterrupt :: hook
  handleDTMF :: hook
  handleError :: hook
  handleClose :: "engine \<Rightarrow> completion \<times> engine"

text \<open>The methods of the base class only write a log line.\<close>

definition base_hooks :: hooks where
  "base_hooks =
     \<lparr> handleSetup = (\<lambda>message e.
         (Resolved, log Debug JUndefined (''Handling setup message: '' @ JSON_stringify message) e)),
       handlePrompt = (\<lambda>message e.
         (Resolved, log Debug JUndefined (''Handling prompt message: '' @ JSON_stringify message) e)),
       handleInterrupt = (\<lambda>message e.
         (Resolved, log Debug JUndefined (''Handling interrupt message: '' @ JSON_stringify message) e)),
       handleDTMF = (\<lambda>message e.
         (Resolved, log Debug JUndefined (''Handling DTMF message: '' @ JSON_stringify message) e)),
       handleError = (\<lambda>message e.
         (Resolved, log Error JUndefined (''Handling error message: '' @ JSON_stringify message) e)),
       handleClose = (\<lambda>e.
         (Resolved, log Debug JUndefined ''WebSocket connection closed'' e)) \<rparr>"

text \<open>
  A connection is the engine together with the record of the hook calls made on it, kept
  by the caller of the hooks (what a test spy sees): the hook's name and its argument.
\<close>

datatype hook_name =
  OnInitialized | HandleSetup | HandlePrompt | HandleInterrupt | HandleDTMF | HandleError | HandleClose

record conn =
  this :: engine
  calls :: "(hook_name \<times> json) list"

definition invoke :: "hook_name \<Rightarrow> hook \<Rightarrow> json \<Rightarrow> conn \<Rightarrow> completion \<times> conn" where
  "invoke name h message c =
     (case h message (this c) of
        (r, e') \<Rightarrow> (r, c\<lparr>this := e', calls := calls c @ [(name, message)]\<rparr>))"

subsection \<open>\<^verbatim>\<open>init\<close>, the message listener, \<^verbatim>\<open>close\<close>\<close>

text \<open>The two assignments of \<^verbatim>\<open>init\<close>: the session record becomes
  \<^verbatim>\<open>{ ...this.session, ...message }\<close>, and the logger a child bound to the message's
  \<^verbatim>\<open>callSid\<close> and \<^verbatim>\<open>sessionId\<close>.\<close>

definition init_record :: "obj \<Rightarrow> engine \<Rightarrow> engine" where
  "init_record message e =
     (let e1 = e\<lparr>session := spread (spread [] (session e)) message\<rparr>
      in e1\<lparr>logger := logger e1 @
              [[(''callSid'', get message ''callSid''),
                (''sessionId'', get message ''sessionId'')]]\<rparr>)"

definition init :: "hooks \<Rightarrow> obj \<Rightarrow> conn \<Rightarrow> completion \<times> conn" where
  "init hs message c =
     invoke HandleSetup (handleSetup hs) (JObject message)
       (c\<lparr>this := init_record message (this c)\<rparr>)"

text \<open>
  The \<^verbatim>\<open>switch\<close> of the listener. Only an object has a \<^verbatim>\<open>type\<close> property, so the
  \<^verbatim>\<open>setup\<close> case is reached with an object. \<open>onInit\<close> is the optional argument of
  \<^verbatim>\<open>start\<close>.
\<close>

definition dispatch :: "hooks \<Rightarrow> hook option \<Rightarrow> json \<Rightarrow> json \<Rightarrow> conn \<Rightarrow> completion \<times> conn" where
  "dispatch hs onInit message ty c =
     (if ty = JString ''setup'' then
        (case message of
           JObject m \<Rightarrow>
             (case (case onInit of
                      None \<Rightarrow> (Resolved, c)
                    | Some cb \<Rightarrow> invoke OnInitialized cb message c) of
                (Rejected err, c') \<Rightarrow> (Rejected err, c')
              | (Resolved, c') \<Rightarrow> init hs m c')
         | _ \<Rightarrow> (Resolved, c))
      else if ty = JString ''prompt'' then invoke HandlePrompt (handlePrompt hs) message c
      else if ty = JString ''interrupt'' then invoke HandleInterrupt (handleInterrupt hs) message c
      else if ty = JString ''dtmf'' then invoke HandleDTMF (handleDTMF hs) message c
      else if ty = JString ''error'' then invoke HandleError (handleError hs) message c
      else (Resolved,
            c\<lparr>this := log Warn (JObject [(''type'', ty)]) ''Unknown message type'' (this c)\<rparr>))"

text \<open>
  The body of the \<^verbatim>\<open>try\<close> block. \<open>parse\<close> is \<^verbatim>\<open>JSON.parse(data.toString())\<close>: \<open>Inl\<close> the
  message of the \<^verbatim>\<open>SyntaxError\<close> it throws, \<open>Inr\<close> the value it returns.
\<close>

definition try_block ::
  "(string \<Rightarrow> string + json) \<Rightarrow> hooks \<Rightarrow> hook option \<Rightarrow> string \<Rightarrow> conn \<Rightarrow> completion \<times> conn" where
  "try_block parse hs onInit data c =
     (case parse data of
        Inl msg \<Rightarrow> (Rejected (js_error ''SyntaxError'' msg), c)
      | Inr message \<Rightarrow>
          (case member message ''type'' of
             Inl err \<Rightarrow> (Rejected err, c)
           | Inr ty \<Rightarrow>
               dispatch hs onInit message ty
                 (c\<lparr>this := log Info (JObject [(''messageType'', ty)]) ''Received message'' (this c)\<rparr>)))"

text \<open>The \<^verbatim>\<open>catch\<close> clause reads \<^verbatim>\<open>error.message\<close>, which itself throws when the caught
  value is \<^verbatim>\<open>undefined\<close> or \<^verbatim>\<open>null\<close>.\<close>

definition catch_block :: "json \<Rightarrow> conn \<Rightarrow> completion \<times> conn" where
  "catch_block err c =
     (case member err ''message'' of
        Inl err' \<Rightarrow> (Rejected err', c)
      | Inr m \<Rightarrow>
          (Resolved,
           c\<lparr>this := log Error (JObject [(''error'', m)]) ''Error processing message'' (this c)\<rparr>))"

definition on_message ::
  "(string \<Rightarrow> string + json) \<Rightarrow> hooks \<Rightarrow> hook option \<Rightarrow> string \<Rightarrow> conn \<Rightarrow> completion \<times> conn" where
  "on_message parse hs onInit data c =
     (case try_block parse hs onInit data c of
        (Resolved, c') \<Rightarrow> (Resolved, c')
      | (Rejected err, c') \<Rightarrow> catch_block err c')"

text \<open>
  \<^verbatim>\<open>start\<close> registers the listener; the connection then calls it once for each frame, in
  the order of arrival. A listener whose promise rejects is an unhandled rejection, at
  which the run ends.
\<close>

fun start ::
  "(string \<Rightarrow> string + json) \<Rightarrow> hooks \<Rightarrow> hook option \<Rightarrow> string list \<Rightarrow> conn \<Rightarrow> completion \<times> conn" where
  "start parse hs onInit [] c = (Resolved, c)"
| "start parse hs onInit (data # frames) c =
     (case on_message parse hs onInit data c of
        (Rejected err, c') \<Rightarrow> (Rejected err, c')
      | (Resolved, c') \<Rightarrow> start parse hs onInit frames c')"

definition close :: "hooks \<Rightarrow> conn \<Rightarrow> completion \<times> conn" where
  "close hs c =
     (case handleClose hs (this c) of
        (r, e') \<Rightarrow> (r, c\<lparr>this := e', calls := calls c @ [(HandleClose, JUndefined)]\<rparr>))"


section \<open>Hooks that suspend\<close>

text \<open>
  The listener is an \<^verbatim>\<open>async\<close> function, and the connection's emitter calls it for every
  message event without looking at the promise it returns. A hook that awaits outside
  input (the answer of a language model, a timer) suspends the listener run that awaits
  it and gives control back to the event loop, which may then emit the next message. So
  a run is either settled, with its completion and the engine it leaves, or suspended,
  with the engine it leaves for now and what it goes on to do, on the engine it then
  finds, when the input it awaits arrives.
\<close>

datatype resumption =
    Settled completion engine
  | Suspended engine "engine \<Rightarrow> resumption"





text \<open>The \<^verbatim>\<open>catch\<close> clause, as the rest of the listener after its \<^verbatim>\<open>try\<close> block.\<close>

definition caught :: "completion \<Rightarrow> engine \<Rightarrow> resumption" where
  "caught r e =
     (case r of
        Resolved \<Rightarrow> Settled Resolved e
      | Rejected err \<Rightarrow>
          (case member err ''message'' of
             Inl err' \<Rightarrow> Settled (Rejected err') e
           | Inr m \<Rightarrow>
               Settled Resolved
                 (log Error (JObject [(''error'', m)]) ''Error processing message'' e)))"



datatype mark = Begin string | Finish string completion

record loop =
  world :: engine
  pending :: "(string \<times> (engine \<Rightarrow> resumption)) list"
  trace :: "mark list"






section \<open>The session resolver (\<^verbatim>\<open>hooks/sessions.ts\<close>)\<close>

datatype SessionIdKey = From | CallSid | SessionId

text \<open>\<^verbatim>\<open>v.startsWith(p)\<close>: only a string has the method; on any other value the call
  throws (\<open>v\<close> is never \<^verbatim>\<open>undefined\<close> or \<^verbatim>\<open>null\<close> where the resolver calls it).\<close>

definition startsWith :: "string \<Rightarrow> json \<Rightarrow> string \<Rightarrow> json + bool" where
  "startsWith var v p =
     (case v of
        JString s \<Rightarrow> Inr (take (length p) s = p)
      | _ \<Rightarrow> Inl (js_error ''TypeError'' (var @ ''.startsWith is not a function'')))"

text \<open>\<^verbatim>\<open>activeSessions.get(key)\<close>: the registry's keys are strings, so no other value is a
  key of it. \<open>None\<close> is the miss (\<^verbatim>\<open>undefined\<close>).\<close>

definition map_get :: "(string \<rightharpoonup> 'h) \<Rightarrow> json \<Rightarrow> 'h option" where
  "map_get activeSessions key = (case key of JString s \<Rightarrow> activeSessions s | _ \<Rightarrow> None)"

text \<open>The last lines of the resolver, from \<^verbatim>\<open>const from\<close> on. \<open>None\<close> also stands for the
  \<^verbatim>\<open>null\<close> it returns.\<close>

definition from_fallback :: "(string \<rightharpoonup> 'h) \<Rightarrow> json \<Rightarrow> 'h option" where
  "from_fallback activeSessions body =
     (let from = coalesce (or_else (opt_member body ''From'') (opt_member body ''from'')) (JString '''')
      in if truthy from then map_get activeSessions from else None)"

text \<open>The \<^verbatim>\<open>SessionId\<close> block and what follows it. Its third operand is \<^verbatim>\<open>body.id\<close>,
  without the \<^verbatim>\<open>?.\<close> of the others, and is read only when the first two are falsy.\<close>

definition sessionId_step :: "(string \<rightharpoonup> 'h) \<Rightarrow> SessionIdKey \<Rightarrow> json \<Rightarrow> json + 'h option" where
  "sessionId_step activeSessions sessionIdKey body =
     (if sessionIdKey = SessionId then
        (let first_two = or_else (opt_member body ''sessionId'') (opt_member body ''SessionId'')
         in case (if truthy first_two then Inr first_two else member body ''id'') of
              Inl err \<Rightarrow> Inl err
            | Inr chain \<Rightarrow>
                (let sessionId = coalesce chain (JString '''')
                 in case startsWith ''sessionId'' sessionId ''VX'' of
                      Inl err \<Rightarrow> Inl err
                    | Inr True \<Rightarrow> Inr (map_get activeSessions sessionId)
                    | Inr False \<Rightarrow> Inr (from_fallback activeSessions body)))
      else Inr (from_fallback activeSessions body))"

text \<open>
  \<open>body\<close> is \<^verbatim>\<open>req.body\<close> (\<^verbatim>\<open>undefined\<close> for a request without one), \<open>sessionId\<close> the
  optional argument. \<open>Inl\<close> is the value the returned promise rejects with.
\<close>

definition getActiveSession ::
  "(string \<rightharpoonup> 'h) \<Rightarrow> SessionIdKey \<Rightarrow> json \<Rightarrow> string option \<Rightarrow> json + 'h option" where
  "getActiveSession activeSessions sessionIdKey body sessionId =
     (case sessionId of
        Some (ch # rest) \<Rightarrow> Inr (activeSessions (ch # rest))
      | _ \<Rightarrow>
          (if sessionIdKey = CallSid then
             (let callSid =
                    coalesce
                      (or_else (or_else (or_else (opt_member body ''CallSid'') (opt_member body ''Sid''))
                                        (opt_member body ''callSid''))
                               (opt_member body ''sid''))
                      (JString '''')
              in case startsWith ''callSid'' callSid ''CA'' of
                   Inl err \<Rightarrow> Inl err
                 | Inr True \<Rightarrow> Inr (map_get activeSessions callSid)
                 | Inr False \<Rightarrow> sessionId_step activeSessions sessionIdKey body)
           else sessionId_step activeSessions sessionIdKey body))"

section \<open>The resolver as the specification words it\<close>

text \<open>
  Two readings of the key derivation, to be compared with \<open>getActiveSession\<close>. Both scan
  a list of field names in order, check the policy's prefix, and fall back to
  \<^verbatim>\<open>From\<close>, \<^verbatim>\<open>from\<close>; they differ in which value a scan takes. The first is the
  specification's: the first field that is present and not absent (neither
  \<^verbatim>\<open>undefined\<close> nor \<^verbatim>\<open>null\<close>), the empty string when there is none.
\<close>

definition first_present :: "string list \<Rightarrow> obj \<Rightarrow> json" where
  "first_present names payload =
     (case filter (\<lambda>v. \<not> nullish v) (map (get payload) names) of
        [] \<Rightarrow> JString ''''
      | v # _ \<Rightarrow> v)"

text \<open>The second skips an empty value as it skips a missing one.\<close>

definition first_nonempty :: "string list \<Rightarrow> obj \<Rightarrow> json" where
  "first_nonempty names payload =
     (case filter truthy (map (get payload) names) of
        [] \<Rightarrow> JString ''''
      | v # _ \<Rightarrow> v)"

definition has_prefix :: "string \<Rightarrow> json \<Rightarrow> bool" where
  "has_prefix p v = (case v of JString s \<Rightarrow> take (length p) s = p | _ \<Rightarrow> False)"

text \<open>The resolution without an explicit key, over a scan \<open>pick\<close>: the policy's candidate
  if it has the policy's prefix, else the \<^verbatim>\<open>From\<close> fallback, looked up if not empty.\<close>

definition resolve_with ::
  "(string list \<Rightarrow> obj \<Rightarrow> json) \<Rightarrow> (string \<rightharpoonup> 'h) \<Rightarrow> SessionIdKey \<Rightarrow> obj \<Rightarrow> 'h option" where
  "resolve_with pick activeSessions policy payload =
     (let candidate =
            (case policy of
               CallSid \<Rightarrow> pick [''CallSid'', ''Sid'', ''callSid'', ''sid''] payload
             | SessionId \<Rightarrow> pick [''sessionId'', ''SessionId'', ''id''] payload
             | From \<Rightarrow> JString '''');
          accepted =
            (case policy of
               CallSid \<Rightarrow> has_prefix ''CA'' candidate
             | SessionId \<Rightarrow> has_prefix ''VX'' candidate
             | From \<Rightarrow> False)
      in if accepted then map_get activeSessions candidate
         else (let from = pick [''From'', ''from''] payload
               in if from = JString '''' then None else map_get activeSessions from))"

text \<open>A payload of the declared type \<^verbatim>\<open>Record<string, string>\<close>, as far as the resolver
  reads it: each of the nine fields is a string or missing.\<close>

definition string_or_absent :: "json \<Rightarrow> bool" where
  "string_or_absent v = (case v of JString s \<Rightarrow> True | JUndefined \<Rightarrow> True | JNull \<Rightarrow> True | _ \<Rightarrow> False)"

definition string_fields :: "obj \<Rightarrow> bool" where
  "string_fields payload =
     list_all (\<lambda>f. string_or_absent (get payload f))
       [''CallSid'', ''Sid'', ''callSid'', ''sid'', ''sessionId'', ''SessionId'', ''id'', ''From'', ''from'']"

section \<open>Objects: what a read sees after a write and after a spread\<close>

lemma get_Nil: "get [] k = JUndefined"
  by (simp add: get_def)

lemma get_Cons: "get ((k', v) # rest) k = (if k = k' then v else get rest k)"
  by (simp add: get_def)

lemma has_Nil: "has [] k = False"
  by (simp add: has_def)

lemma has_Cons: "has ((k', v) # rest) k = (k = k' \<or> has rest k)"
  by (auto simp: has_def)

lemma has_map_of: "has ob k = (map_of ob k \<noteq> None)"
  by (simp add: has_def map_of_eq_None_iff)

lemma map_of_overwrite:
  "map_of (overwrite k v ob) x = (if x = k \<and> has ob k then Some v else map_of ob x)"
  by (induction ob) (force simp: has_def)+

lemma map_of_insert_index:
  "\<not> has ob k \<Longrightarrow> map_of (insert_index k v ob) x = (if x = k then Some v else map_of ob x)"
  by (induction ob) (auto simp: has_def)

lemma map_of_put: "map_of (put k v ob) = (map_of ob)(k \<mapsto> v)"
proof
  fix x
  show "map_of (put k v ob) x = ((map_of ob)(k \<mapsto> v)) x"
  proof (cases "has ob k")
    case True
    then show ?thesis by (simp add: put_def map_of_overwrite)
  next
    case False
    then show ?thesis
      by (auto simp: put_def map_of_insert_index map_add_def has_map_of split: option.splits)
  qed
qed

lemma map_of_fold_put:
  "map_of (fold (\<lambda>(k, v). put k v) source target) = map_of target ++ map_of (rev source)"
proof (induction source arbitrary: target)
  case Nil
  show ?case by simp
next
  case (Cons p source)
  obtain k v where p: "p = (k, v)" by (cases p)
  have "map_of (fold (\<lambda>(k, v). put k v) (p # source) target)
        = map_of (put k v target) ++ map_of (rev source)"
    by (simp add: p Cons.IH)
  also have "\<dots> = map_of target ++ map_of (rev (p # source))"
    by (simp add: p map_of_put)
  finally show ?case .
qed

lemma map_of_rev_distinct:
  assumes "distinct (map fst xs)"
  shows "map_of (rev xs) = map_of xs"
proof -
  have "distinct (map fst (rev xs))"
    using assms by (simp add: rev_map [symmetric])
  then show ?thesis
    using assms map_of_inject_set [of "rev xs" xs] by simp
qed

lemma map_of_spread:
  "distinct (map fst source) \<Longrightarrow> map_of (spread target source) = map_of target ++ map_of source"
  by (simp add: spread_def map_of_fold_put map_of_rev_distinct)

lemma get_spread:
  assumes "distinct (map fst source)"
  shows "get (spread target source) k = (if has source k then get source k else get target k)"
proof (cases "map_of source k")
  case None
  then show ?thesis
    using assms by (simp add: get_def map_of_spread map_add_def has_map_of)
next
  case (Some v)
  then show ?thesis
    using assms by (simp add: get_def map_of_spread map_add_def has_map_of)
qed

lemma get_spread_absent:
  assumes "\<not> has source k"
  shows "get (spread target source) k = get target k"
proof -
  have "map_of (rev source) k = None"
    using assms by (simp add: has_def map_of_eq_None_iff)
  then show ?thesis
    by (simp add: get_def spread_def map_of_fold_put map_add_def)
qed

lemma sent_sendToken:
  "ready_open e \<Longrightarrow>
   sent (sendToken token lastArg additional e)
     = sent e @ [JSON_stringify (JObject (text_message token lastArg additional))]"
  by (simp add: sendToken_def send_def log_def)

section \<open>Outbound frames\<close>

lemma stringify_hello:
  \<open>JSON_stringify (JObject (text_message ''hello'' None None))
     = ''{"type":"text","token":"hello","last":false}''\<close>
  by (simp add: text_message_def spread_opt_def quote_def escape_char_def commas_def)

lemma stringify_world:
  \<open>JSON_stringify (JObject (text_message ''world'' (Some True) None))
     = ''{"type":"text","token":"world","last":true}''\<close>
  by (simp add: text_message_def spread_opt_def quote_def escape_char_def commas_def)

lemma not_index_lang: "\<not> is_array_index ''lang''"
  by (simp add: is_array_index_def is_digit_def)

lemma stringify_lang:
  \<open>JSON_stringify (JObject (text_message ''test'' (Some False) (Some [(''lang'', JString ''en'')])))
     = ''{"type":"text","token":"test","last":false,"lang":"en"}''\<close>
  by (simp add: text_message_def spread_opt_def spread_def put_def has_def not_index_lang
      quote_def escape_char_def commas_def)

text \<open>
  C6. With the connection open, \<^verbatim>\<open>sendToken("hello")\<close> hands exactly the text
  \<^verbatim>\<open>{"type":"text","token":"hello","last":false}\<close> to the connection, and
  \<^verbatim>\<open>sendToken("world", true)\<close> the same with \<^verbatim>\<open>"world"\<close> and \<^verbatim>\<open>true\<close>. A bag of
  additional properties is merged into the object that is serialised: with
  \<^verbatim>\<open>{lang: "en"}\<close> the frame ends in \<^verbatim>\<open>"lang":"en"\<close>, and in general the frame is the
  serialisation of the message object, in which every field of the bag has the bag's value.
\<close>

theorem sendToken_serialises_and_merges:
  assumes "ready_open e"
  shows \<open>sent (sendToken ''hello'' None None e)
            = sent e @ [''{"type":"text","token":"hello","last":false}'']
        \<and> sent (sendToken ''world'' (Some True) None e)
            = sent e @ [''{"type":"text","token":"world","last":true}'']
        \<and> sent (sendToken ''test'' (Some False) (Some [(''lang'', JString ''en'')]) e)
            = sent e @ [''{"type":"text","token":"test","last":false,"lang":"en"}'']
        \<and> sent (sendToken token lastArg (Some bag) e)
            = sent e @ [JSON_stringify (JObject (text_message token lastArg (Some bag)))]
        \<and> (distinct (map fst bag) \<longrightarrow> has bag k \<longrightarrow>
             get (text_message token lastArg (Some bag)) k = get bag k)\<close>
proof -
  have merged: "distinct (map fst bag) \<longrightarrow> has bag k \<longrightarrow>
      get (text_message token lastArg (Some bag)) k = get bag k"
    by (simp add: text_message_def spread_opt_def get_spread)
  show ?thesis
    using assms merged
    by (simp only: sent_sendToken stringify_hello stringify_world stringify_lang simp_thms)
qed

theorem sendToken_serialises_and_merges_witness:
  \<open>ready_open (ConversationRelaySession 0 True)
   \<and> sent (sendToken ''hello'' None None (ConversationRelaySession 0 True))
       = [''{"type":"text","token":"hello","last":false}'']
   \<and> distinct (map fst [(''lang'', JString ''en'')])
   \<and> has [(''lang'', JString ''en'')] ''lang''
   \<and> get (text_message ''t'' None (Some [(''lang'', JString ''en'')])) ''lang'' = JString ''en''\<close>
proof -
  have op: "ready_open (ConversationRelaySession 0 True)"
    and nothing_sent: "sent (ConversationRelaySession 0 True) = []"
    by (simp_all add: ConversationRelaySession_def)
  have bag: "distinct (map fst [(''lang'', JString ''en'')])" "has [(''lang'', JString ''en'')] ''lang''"
    and lang_value: "get [(''lang'', JString ''en'')] ''lang'' = JString ''en''"
    by (simp_all add: has_def get_def)
  show ?thesis
    using sendToken_serialises_and_merges
            [OF op, of "''t''" None "[(''lang'', JString ''en'')]" "''lang''"]
          op nothing_sent bag lang_value
    by simp
qed

lemma sent_play:
  "ready_open e \<Longrightarrow>
   sent (play source additional e) = sent e @ [JSON_stringify (JObject (play_message source additional))]"
  by (simp add: play_def send_def)

lemma sent_sendDigits:
  "ready_open e \<Longrightarrow>
   sent (sendDigits digits e) = sent e @ [JSON_stringify (JObject (sendDigits_message digits))]"
  by (simp add: sendDigits_def send_def)

lemma sent_language:
  "ready_open e \<Longrightarrow>
   sent (language lang e) = sent e @ [JSON_stringify (JObject (language_message lang))]"
  by (simp add: language_def send_def)

lemma sent_end_session:
  "ready_open e \<Longrightarrow>
   sent (end_session handoffData e) = sent e @ [JSON_stringify (JObject (end_message handoffData))]"
  by (simp add: end_session_def send_def)

lemma text_message_keeps:
  "\<not> has bag k \<Longrightarrow>
   get (text_message token lastArg (Some bag)) k
     = get [(''type'', JString ''text''), (''token'', JString token),
            (''last'', JBool (case lastArg of None \<Rightarrow> False | Some b \<Rightarrow> b))] k"
  by (simp add: text_message_def spread_opt_def get_spread_absent)

lemma text_message_takes:
  "distinct (map fst bag) \<Longrightarrow> has bag k \<Longrightarrow>
   get (text_message token lastArg (Some bag)) k = get bag k"
  by (simp add: text_message_def spread_opt_def get_spread)

lemma play_message_keeps:
  "\<not> has bag k \<Longrightarrow>
   get (play_message source (Some bag)) k
     = get [(''type'', JString ''play''), (''source'', JString source)] k"
  by (simp add: play_message_def spread_opt_def get_spread_absent)

lemma play_message_takes:
  "distinct (map fst bag) \<Longrightarrow> has bag k \<Longrightarrow> get (play_message source (Some bag)) k = get bag k"
  by (simp add: play_message_def spread_opt_def get_spread)

lemma language_message_keeps:
  "\<not> has bag k \<Longrightarrow> get (language_message bag) k = get [(''type'', JString ''language'')] k"
  by (simp add: language_message_def get_spread_absent)

lemma language_message_takes:
  "distinct (map fst bag) \<Longrightarrow> has bag k \<Longrightarrow> get (language_message bag) k = get bag k"
  by (simp add: language_message_def get_spread)

lemma stringify_overridden:
  \<open>JSON_stringify (JObject (text_message ''hello'' None
       (Some [(''type'', JString ''play''), (''token'', JString ''bye'')])))
     = ''{"type":"play","token":"bye","last":false}''\<close>
  by (simp add: text_message_def spread_opt_def spread_def put_def has_def
      quote_def escape_char_def commas_def)

text \<open>
  C7, as the specification states it, fails: a bag that names \<^verbatim>\<open>type\<close> and \<^verbatim>\<open>token\<close>
  replaces both, because the bag is spread after the required fields. The frame sent for
  \<^verbatim>\<open>sendToken("hello", undefined, {type: "play", token: "bye"})\<close> is a \<^verbatim>\<open>play\<close> frame
  with the token \<^verbatim>\<open>bye\<close>.
\<close>

theorem bag_replaces_type_and_token:
  \<open>get (text_message ''hello'' None (Some [(''type'', JString ''play''), (''token'', JString ''bye'')]))
       ''type'' \<noteq> JString ''text''
   \<and> get (text_message ''hello'' None (Some [(''type'', JString ''play''), (''token'', JString ''bye'')]))
       ''token'' \<noteq> JString ''hello''
   \<and> sent (sendToken ''hello'' None (Some [(''type'', JString ''play''), (''token'', JString ''bye'')])
         (ConversationRelaySession 0 True))
       = [''{"type":"play","token":"bye","last":false}'']\<close>
proof -
  have opened: "ready_open (ConversationRelaySession 0 True)"
    and nothing_sent: "sent (ConversationRelaySession 0 True) = []"
    by (simp_all add: ConversationRelaySession_def)
  have "sent (sendToken ''hello'' None (Some [(''type'', JString ''play''), (''token'', JString ''bye'')])
         (ConversationRelaySession 0 True))
       = sent (ConversationRelaySession 0 True) @ [JSON_stringify (JObject (text_message ''hello'' None
            (Some [(''type'', JString ''play''), (''token'', JString ''bye'')])))]"
    using opened by (rule sent_sendToken)
  then have wire: \<open>sent (sendToken ''hello'' None (Some [(''type'', JString ''play''), (''token'', JString ''bye'')])
         (ConversationRelaySession 0 True))
       = [''{"type":"play","token":"bye","last":false}'']\<close>
    by (simp only: stringify_overridden nothing_sent append_Nil)
  have ty: "get (text_message ''hello'' None
        (Some [(''type'', JString ''play''), (''token'', JString ''bye'')])) ''type'' = JString ''play''"
    by (simp add: text_message_takes has_Cons has_Nil get_Cons get_Nil)
  have tok: "get (text_message ''hello'' None
        (Some [(''type'', JString ''play''), (''token'', JString ''bye'')])) ''token'' = JString ''bye''"
    by (simp add: text_message_takes has_Cons has_Nil get_Cons get_Nil)
  show ?thesis
    by (simp only: wire ty tok) simp
qed

text \<open>
  C7, amended. Every operation sends the serialisation of its message object. The
  required \<^verbatim>\<open>type\<close> and the variant-defining \<^verbatim>\<open>token\<close> or \<^verbatim>\<open>source\<close> are those of the
  operation whenever the bag has no field of that name, and always for \<^verbatim>\<open>sendDigits\<close>
  and \<^verbatim>\<open>end\<close>, which take no bag. A field the bag does name (the declared parameter types
  leave \<^verbatim>\<open>type\<close>, \<^verbatim>\<open>token\<close>, \<^verbatim>\<open>last\<close> and \<^verbatim>\<open>source\<close> out) has the bag's value in the
  message, for \<^verbatim>\<open>sendToken\<close>, \<^verbatim>\<open>play\<close> and \<^verbatim>\<open>language\<close> alike.
\<close>

theorem required_fields_kept_unless_bag_names_them:
  "(ready_open e \<longrightarrow>
      sent (sendToken token lastArg additional e)
        = sent e @ [JSON_stringify (JObject (text_message token lastArg additional))]
    \<and> sent (play source additional e)
        = sent e @ [JSON_stringify (JObject (play_message source additional))]
    \<and> sent (sendDigits digits e)
        = sent e @ [JSON_stringify (JObject (sendDigits_message digits))]
    \<and> sent (language bag e)
        = sent e @ [JSON_stringify (JObject (language_message bag))]
    \<and> sent (end_session handoffData e)
        = sent e @ [JSON_stringify (JObject (end_message handoffData))])
   \<and> get (text_message token lastArg None) ''type'' = JString ''text''
   \<and> get (text_message token lastArg None) ''token'' = JString token
   \<and> get (play_message source None) ''type'' = JString ''play''
   \<and> get (play_message source None) ''source'' = JString source
   \<and> get (sendDigits_message digits) ''type'' = JString ''sendDigits''
   \<and> get (sendDigits_message digits) ''digits'' = JString digits
   \<and> get (end_message handoffData) ''type'' = JString ''end''
   \<and> (\<not> has bag ''type'' \<longrightarrow>
        get (text_message token lastArg (Some bag)) ''type'' = JString ''text''
      \<and> get (play_message source (Some bag)) ''type'' = JString ''play''
      \<and> get (language_message bag) ''type'' = JString ''language'')
   \<and> (\<not> has bag ''token'' \<longrightarrow>
        get (text_message token lastArg (Some bag)) ''token'' = JString token)
   \<and> (\<not> has bag ''source'' \<longrightarrow>
        get (play_message source (Some bag)) ''source'' = JString source)
   \<and> (distinct (map fst bag) \<longrightarrow> has bag k \<longrightarrow>
        get (text_message token lastArg (Some bag)) k = get bag k
      \<and> get (play_message source (Some bag)) k = get bag k
      \<and> get (language_message bag) k = get bag k)"
proof -
  have wire: "ready_open e \<longrightarrow>
      sent (sendToken token lastArg additional e)
        = sent e @ [JSON_stringify (JObject (text_message token lastArg additional))]
    \<and> sent (play source additional e)
        = sent e @ [JSON_stringify (JObject (play_message source additional))]
    \<and> sent (sendDigits digits e)
        = sent e @ [JSON_stringify (JObject (sendDigits_message digits))]
    \<and> sent (language bag e)
        = sent e @ [JSON_stringify (JObject (language_message bag))]
    \<and> sent (end_session handoffData e)
        = sent e @ [JSON_stringify (JObject (end_message handoffData))]"
    by (simp add: sent_sendToken sent_play sent_sendDigits sent_language sent_end_session)
  have no_bag: "get (text_message token lastArg None) ''type'' = JString ''text''"
    "get (text_message token lastArg None) ''token'' = JString token"
    "get (play_message source None) ''type'' = JString ''play''"
    "get (play_message source None) ''source'' = JString source"
    "get (sendDigits_message digits) ''type'' = JString ''sendDigits''"
    "get (sendDigits_message digits) ''digits'' = JString digits"
    "get (end_message handoffData) ''type'' = JString ''end''"
    by (simp_all add: text_message_def play_message_def sendDigits_message_def end_message_def
        spread_opt_def get_Cons get_Nil)
  have kept_type: "\<not> has bag ''type'' \<longrightarrow>
        get (text_message token lastArg (Some bag)) ''type'' = JString ''text''
      \<and> get (play_message source (Some bag)) ''type'' = JString ''play''
      \<and> get (language_message bag) ''type'' = JString ''language''"
    by (simp add: text_message_keeps play_message_keeps language_message_keeps get_Cons get_Nil)
  have kept_token: "\<not> has bag ''token'' \<longrightarrow>
        get (text_message token lastArg (Some bag)) ''token'' = JString token"
    by (simp add: text_message_keeps get_Cons get_Nil)
  have kept_source: "\<not> has bag ''source'' \<longrightarrow>
        get (play_message source (Some bag)) ''source'' = JString source"
    by (simp add: play_message_keeps get_Cons get_Nil)
  have taken: "distinct (map fst bag) \<longrightarrow> has bag k \<longrightarrow>
        get (text_message token lastArg (Some bag)) k = get bag k
      \<and> get (play_message source (Some bag)) k = get bag k
      \<and> get (language_message bag) k = get bag k"
    by (simp add: text_message_takes play_message_takes language_message_takes)
  show ?thesis
    using wire no_bag kept_type kept_token kept_source taken by blast
qed

theorem required_fields_kept_unless_bag_names_them_witness:
  \<open>ready_open (ConversationRelaySession 0 True)
   \<and> sent (play ''http://x/a.mp3'' (Some [(''loop'', JNum 3)]) (ConversationRelaySession 0 True))
       = [JSON_stringify (JObject (play_message ''http://x/a.mp3'' (Some [(''loop'', JNum 3)])))]
   \<and> \<not> has [(''loop'', JNum 3)] ''type''
   \<and> \<not> has [(''loop'', JNum 3)] ''token''
   \<and> \<not> has [(''loop'', JNum 3)] ''source''
   \<and> distinct (map fst [(''loop'', JNum 3)])
   \<and> has [(''loop'', JNum 3)] ''loop''
   \<and> get (play_message ''http://x/a.mp3'' (Some [(''loop'', JNum 3)])) ''type'' = JString ''play''
   \<and> get (play_message ''http://x/a.mp3'' (Some [(''loop'', JNum 3)])) ''source'' = JString ''http://x/a.mp3''
   \<and> get (play_message ''http://x/a.mp3'' (Some [(''loop'', JNum 3)])) ''loop'' = JNum 3
   \<and> get (text_message ''hi'' None (Some [(''loop'', JNum 3)])) ''token'' = JString ''hi''\<close>
proof -
  have opened: "ready_open (ConversationRelaySession 0 True)"
    and nothing_sent: "sent (ConversationRelaySession 0 True) = []"
    by (simp_all add: ConversationRelaySession_def)
  have bag: "\<not> has [(''loop'', JNum 3)] ''type''" "\<not> has [(''loop'', JNum 3)] ''token''"
    "\<not> has [(''loop'', JNum 3)] ''source''" "distinct (map fst [(''loop'', JNum 3)])"
    "has [(''loop'', JNum 3)] ''loop''" "get [(''loop'', JNum 3)] ''loop'' = JNum 3"
    by (simp_all add: has_Cons has_Nil get_Cons get_Nil)
  show ?thesis
    using required_fields_kept_unless_bag_names_them
            [of "ConversationRelaySession 0 True" "''hi''" None "Some [(''loop'', JNum 3)]"
                "''http://x/a.mp3''" "''1''" "[(''loop'', JNum 3)]" None "''loop''"]
          opened nothing_sent bag
    by simp
qed

section \<open>Closing\<close>





section \<open>The message listener\<close>

lemma member_not_nullish: "\<not> nullish v \<Longrightarrow> member v k = Inr (opt_member v k)"
  by (cases v) (simp_all add: nullish_def)

lemma on_message_rejected:
  "try_block parse hs onInit data c = (Rejected v, c') \<Longrightarrow> \<not> nullish v \<Longrightarrow>
   on_message parse hs onInit data c
     = (Resolved,
        c'\<lparr>this := log Error (JObject [(''error'', opt_member v ''message'')])
                   ''Error processing message'' (this c')\<rparr>)"
  by (simp add: on_message_def catch_block_def member_not_nullish)

lemma try_block_malformed:
  "parse data = Inl msg \<Longrightarrow>
   try_block parse hs onInit data c = (Rejected (js_error ''SyntaxError'' msg), c)"
  by (simp add: try_block_def)

lemma try_block_object:
  "parse data = Inr (JObject m) \<Longrightarrow>
   try_block parse hs onInit data c
     = dispatch hs onInit (JObject m) (get m ''type'')
         (c\<lparr>this := log Info (JObject [(''messageType'', get m ''type'')])
                    ''Received message'' (this c)\<rparr>)"
  by (simp add: try_block_def)

lemma on_message_malformed:
  assumes "parse data = Inl msg"
  shows "on_message parse hs onInit data c
           = (Resolved,
              c\<lparr>this := log Error (JObject [(''error'', JString msg)])
                         ''Error processing message'' (this c)\<rparr>)"
proof -
  have "\<not> nullish (js_error ''SyntaxError'' msg)"
    by (simp add: nullish_def js_error_def)
  moreover have "opt_member (js_error ''SyntaxError'' msg) ''message'' = JString msg"
    by (simp add: js_error_def get_Cons)
  ultimately show ?thesis
    using on_message_rejected [OF try_block_malformed [where parse = parse and data = data, OF assms]]
    by simp
qed

text \<open>
  C8. A frame that \<^verbatim>\<open>JSON.parse\<close> rejects (the bytes \<^verbatim>\<open>invalid json\<close>, say) calls no
  hook and changes nothing but the log, to which it adds exactly one line: the error
  diagnostic with the parser's message. The listener completes normally, and the frames
  that follow are processed as they would have been.
\<close>

theorem malformed_frame_logs_once_and_is_dropped:
  assumes "parse data = Inl msg"
  shows "on_message parse hs onInit data c
           = (Resolved,
              c\<lparr>this := log Error (JObject [(''error'', JString msg)])
                         ''Error processing message'' (this c)\<rparr>)
       \<and> calls (snd (on_message parse hs onInit data c)) = calls c
       \<and> logs (this (snd (on_message parse hs onInit data c)))
           = logs (this c)
             @ [Log (logger (this c)) Error (JObject [(''error'', JString msg)])
                  ''Error processing message'']
       \<and> session (this (snd (on_message parse hs onInit data c))) = session (this c)
       \<and> sent (this (snd (on_message parse hs onInit data c))) = sent (this c)
       \<and> start parse hs onInit (data # frames) c
           = start parse hs onInit frames
               (c\<lparr>this := log Error (JObject [(''error'', JString msg)])
                          ''Error processing message'' (this c)\<rparr>)"
  using assms by (simp add: on_message_malformed log_def)

theorem malformed_frame_logs_once_and_is_dropped_witness:
  \<open>(\<lambda>d. if d = ''invalid json'' then Inl ''Unexpected token i in JSON at position 0''
         else Inr (JObject [(''type'', JString ''dtmf''), (''digit'', JString ''1'')])) ''invalid json''
     = Inl ''Unexpected token i in JSON at position 0''
   \<and> logs (this (snd (on_message
        (\<lambda>d. if d = ''invalid json'' then Inl ''Unexpected token i in JSON at position 0''
              else Inr (JObject [(''type'', JString ''dtmf''), (''digit'', JString ''1'')]))
        base_hooks None ''invalid json''
        \<lparr>this = ConversationRelaySession 0 True, calls = []\<rparr>)))
     = [Log [] Error (JObject [(''error'', JString ''Unexpected token i in JSON at position 0'')])
          ''Error processing message'']
   \<and> calls (snd (start
        (\<lambda>d. if d = ''invalid json'' then Inl ''Unexpected token i in JSON at position 0''
              else Inr (JObject [(''type'', JString ''dtmf''), (''digit'', JString ''1'')]))
        base_hooks None [''invalid json'', ''{"type":"dtmf","digit":"1"}'']
        \<lparr>this = ConversationRelaySession 0 True, calls = []\<rparr>))
     = [(HandleDTMF, JObject [(''type'', JString ''dtmf''), (''digit'', JString ''1'')])]\<close>
proof -
  let ?parse = "\<lambda>d. if d = ''invalid json'' then Inl ''Unexpected token i in JSON at position 0''
         else Inr (JObject [(''type'', JString ''dtmf''), (''digit'', JString ''1'')])"
  let ?c = "\<lparr>this = ConversationRelaySession 0 True, calls = []\<rparr>"
  have bad: "?parse ''invalid json'' = Inl ''Unexpected token i in JSON at position 0''"
    by simp
  have good: \<open>?parse ''{"type":"dtmf","digit":"1"}''
      = Inr (JObject [(''type'', JString ''dtmf''), (''digit'', JString ''1'')])\<close>
    by simp
  have next_frame: \<open>calls (snd (start ?parse base_hooks None [''{"type":"dtmf","digit":"1"}''] c'))
      = calls c' @ [(HandleDTMF, JObject [(''type'', JString ''dtmf''), (''digit'', JString ''1'')])]\<close>
    for c'
    using good by (simp add: on_message_def try_block_object get_Cons dispatch_def invoke_def
        base_hooks_def)
  have empty: "logs (this ?c) = []" "logger (this ?c) = []" "calls ?c = []"
    by (simp_all add: ConversationRelaySession_def)
  show ?thesis
    using malformed_frame_logs_once_and_is_dropped
            [where parse = ?parse and data = "''invalid json''" and hs = base_hooks
               and onInit = None and c = ?c
               and frames = \<open>[''{"type":"dtmf","digit":"1"}'']\<close>, OF bad]
          bad next_frame empty
    by (simp add: log_def)
qed

lemma dispatch_prompt:
  "dispatch hs onInit message (JString ''prompt'') c = invoke HandlePrompt (handlePrompt hs) message c"
  by (simp add: dispatch_def)

lemma dispatch_interrupt:
  "dispatch hs onInit message (JString ''interrupt'') c
     = invoke HandleInterrupt (handleInterrupt hs) message c"
  by (simp add: dispatch_def)

lemma dispatch_dtmf:
  "dispatch hs onInit message (JString ''dtmf'') c = invoke HandleDTMF (handleDTMF hs) message c"
  by (simp add: dispatch_def)

lemma dispatch_error:
  "dispatch hs onInit message (JString ''error'') c = invoke HandleError (handleError hs) message c"
  by (simp add: dispatch_def)

lemma dispatch_setup_none:
  "dispatch hs None (JObject m) (JString ''setup'') c = init hs m c"
  by (simp add: dispatch_def)

lemma dispatch_setup_rejected:
  "cb (JObject m) (this c) = (Rejected v, e') \<Longrightarrow>
   dispatch hs (Some cb) (JObject m) (JString ''setup'') c
     = (Rejected v, \<lparr>this = e', calls = calls c @ [(OnInitialized, JObject m)]\<rparr>)"
  by (simp add: dispatch_def invoke_def)

lemma dispatch_setup_resolved:
  "cb (JObject m) (this c) = (Resolved, e') \<Longrightarrow>
   dispatch hs (Some cb) (JObject m) (JString ''setup'') c
     = init hs m \<lparr>this = e', calls = calls c @ [(OnInitialized, JObject m)]\<rparr>"
  by (cases c) (simp add: dispatch_def invoke_def)

lemma init_result:
  "handleSetup hs (JObject m) (init_record m (this c)) = (r, e') \<Longrightarrow>
   init hs m c = (r, \<lparr>this = e', calls = calls c @ [(HandleSetup, JObject m)]\<rparr>)"
  by (simp add: init_def invoke_def)

text \<open>What the listener does with a frame of one of the four plain types, whatever its
  hook answers.\<close>

lemma try_block_plain:
  assumes "parse data = Inr (JObject m)"
    and "(ty, name, h) \<in> set [(''prompt'', HandlePrompt, handlePrompt hs),
                               (''interrupt'', HandleInterrupt, handleInterrupt hs),
                               (''dtmf'', HandleDTMF, handleDTMF hs),
                               (''error'', HandleError, handleError hs)]"
    and "get m ''type'' = JString ty"
    and "h (JObject m)
           (log Info (JObject [(''messageType'', JString ty)]) ''Received message'' (this c))
         = (r, e')"
  shows "try_block parse hs onInit data c
           = (r, \<lparr>this = e', calls = calls c @ [(name, JObject m)]\<rparr>)"
proof -
  let ?c1 = "c\<lparr>this := log Info (JObject [(''messageType'', JString ty)])
                           ''Received message'' (this c)\<rparr>"
  have disp: "try_block parse hs onInit data c = dispatch hs onInit (JObject m) (JString ty) ?c1"
    using assms(1,3) by (simp add: try_block_object)
  have "dispatch hs onInit (JObject m) (JString ty) ?c1 = invoke name h (JObject m) ?c1"
    using assms(2)
    by (auto simp: dispatch_prompt dispatch_interrupt dispatch_dtmf dispatch_error)
  moreover have "invoke name h (JObject m) ?c1
                   = (r, \<lparr>this = e', calls = calls c @ [(name, JObject m)]\<rparr>)"
    using assms(4) by (simp add: invoke_def)
  ultimately show ?thesis
    using disp by simp
qed

text \<open>
  C4, as the specification states it, fails: the hook calls are inside the listener's
  \<^verbatim>\<open>try\<close> block. With a \<^verbatim>\<open>handlePrompt\<close> that throws \<^verbatim>\<open>new Error("boom")\<close>, a prompt
  frame makes the listener complete normally, after logging the failure.
\<close>

theorem rejecting_hook_is_caught:
  "fst (on_message
          (\<lambda>d. Inr (JObject [(''type'', JString ''prompt''), (''voicePrompt'', JString ''Hello''),
                              (''lang'', JString ''en''), (''last'', JBool False)]))
          (base_hooks\<lparr>handlePrompt := (\<lambda>message e. (Rejected (js_error ''Error'' ''boom''), e))\<rparr>)
          None ''frame''
          \<lparr>this = ConversationRelaySession 0 True, calls = []\<rparr>)
     = Resolved
   \<and> logs (this (snd (on_message
          (\<lambda>d. Inr (JObject [(''type'', JString ''prompt''), (''voicePrompt'', JString ''Hello''),
                              (''lang'', JString ''en''), (''last'', JBool False)]))
          (base_hooks\<lparr>handlePrompt := (\<lambda>message e. (Rejected (js_error ''Error'' ''boom''), e))\<rparr>)
          None ''frame''
          \<lparr>this = ConversationRelaySession 0 True, calls = []\<rparr>)))
     = [Log [] Info (JObject [(''messageType'', JString ''prompt'')]) ''Received message'',
        Log [] Error (JObject [(''error'', JString ''boom'')]) ''Error processing message'']"
proof -
  let ?m = "[(''type'', JString ''prompt''), (''voicePrompt'', JString ''Hello''),
             (''lang'', JString ''en''), (''last'', JBool False)]"
  let ?parse = "\<lambda>d::string. (Inr (JObject ?m) :: string + json)"
  let ?hs = "base_hooks\<lparr>handlePrompt := (\<lambda>message e. (Rejected (js_error ''Error'' ''boom''), e))\<rparr>"
  let ?c = "\<lparr>this = ConversationRelaySession 0 True, calls = []\<rparr>"
  let ?e1 = "log Info (JObject [(''messageType'', JString ''prompt'')]) ''Received message'' (this ?c)"
  have "try_block ?parse ?hs None ''frame'' ?c
          = (Rejected (js_error ''Error'' ''boom''),
             \<lparr>this = ?e1, calls = calls ?c @ [(HandlePrompt, JObject ?m)]\<rparr>)"
    by (rule try_block_plain [where ty = "''prompt''" and h = "handlePrompt ?hs"])
       (simp_all add: get_Cons)
  moreover have "\<not> nullish (js_error ''Error'' ''boom'')"
    by (simp add: nullish_def js_error_def)
  ultimately have "on_message ?parse ?hs None ''frame'' ?c
      = (Resolved,
         \<lparr>this = log Error (JObject [(''error'', opt_member (js_error ''Error'' ''boom'') ''message'')])
                   ''Error processing message'' ?e1,
          calls = calls ?c @ [(HandlePrompt, JObject ?m)]\<rparr>)"
    by (simp add: on_message_rejected)
  then show ?thesis
    by (simp add: log_def ConversationRelaySession_def js_error_def get_Cons)
qed

text \<open>
  C4, amended. A hook failure is caught by the listener. When the hook dispatched for a
  frame, or the registration callback of a \<^verbatim>\<open>setup\<close> frame, rejects with a value other
  than \<^verbatim>\<open>undefined\<close> and \<^verbatim>\<open>null\<close>, the listener completes normally: it adds one error
  line carrying that value's \<^verbatim>\<open>message\<close> to what the hook left, and skips the rest of
  the frame (after a failed callback, \<^verbatim>\<open>init\<close> does not run).
\<close>

theorem hook_failure_is_caught_and_logged:
  assumes "parse data = Inr (JObject m)" and "\<not> nullish v"
  shows
    "((ty, name, h) \<in> set [(''prompt'', HandlePrompt, handlePrompt hs),
                            (''interrupt'', HandleInterrupt, handleInterrupt hs),
                            (''dtmf'', HandleDTMF, handleDTMF hs),
                            (''error'', HandleError, handleError hs)] \<longrightarrow>
      get m ''type'' = JString ty \<longrightarrow>
      h (JObject m)
        (log Info (JObject [(''messageType'', JString ty)]) ''Received message'' (this c))
        = (Rejected v, e') \<longrightarrow>
      on_message parse hs onInit data c
        = (Resolved,
           \<lparr>this = log Error (JObject [(''error'', opt_member v ''message'')])
                     ''Error processing message'' e',
            calls = calls c @ [(name, JObject m)]\<rparr>))
   \<and> (get m ''type'' = JString ''setup'' \<longrightarrow>
      cb (JObject m)
        (log Info (JObject [(''messageType'', JString ''setup'')]) ''Received message'' (this c))
        = (Rejected v, e') \<longrightarrow>
      on_message parse hs (Some cb) data c
        = (Resolved,
           \<lparr>this = log Error (JObject [(''error'', opt_member v ''message'')])
                     ''Error processing message'' e',
            calls = calls c @ [(OnInitialized, JObject m)]\<rparr>))
   \<and> (get m ''type'' = JString ''setup'' \<longrightarrow>
      handleSetup hs (JObject m)
        (init_record m
          (log Info (JObject [(''messageType'', JString ''setup'')]) ''Received message'' (this c)))
        = (Rejected v, e') \<longrightarrow>
      on_message parse hs None data c
        = (Resolved,
           \<lparr>this = log Error (JObject [(''error'', opt_member v ''message'')])
                     ''Error processing message'' e',
            calls = calls c @ [(HandleSetup, JObject m)]\<rparr>))
   \<and> (get m ''type'' = JString ''setup'' \<longrightarrow>
      cb (JObject m)
        (log Info (JObject [(''messageType'', JString ''setup'')]) ''Received message'' (this c))
        = (Resolved, e1) \<longrightarrow>
      handleSetup hs (JObject m) (init_record m e1) = (Rejected v, e') \<longrightarrow>
      on_message parse hs (Some cb) data c
        = (Resolved,
           \<lparr>this = log Error (JObject [(''error'', opt_member v ''message'')])
                     ''Error processing message'' e',
            calls = calls c @ [(OnInitialized, JObject m), (HandleSetup, JObject m)]\<rparr>))"
proof -
  let ?received = "\<lambda>ty. log Info (JObject [(''messageType'', JString ty)]) ''Received message'' (this c)"
  let ?caught = "log Error (JObject [(''error'', opt_member v ''message'')])
                   ''Error processing message'' e'"
  have plain: "on_message parse hs onInit data c
        = (Resolved, \<lparr>this = ?caught, calls = calls c @ [(name, JObject m)]\<rparr>)"
    if "(ty, name, h) \<in> set [(''prompt'', HandlePrompt, handlePrompt hs),
                            (''interrupt'', HandleInterrupt, handleInterrupt hs),
                            (''dtmf'', HandleDTMF, handleDTMF hs),
                            (''error'', HandleError, handleError hs)]"
      and "get m ''type'' = JString ty"
      and "h (JObject m) (?received ty) = (Rejected v, e')"
  proof -
    have "try_block parse hs onInit data c
            = (Rejected v, \<lparr>this = e', calls = calls c @ [(name, JObject m)]\<rparr>)"
      using assms(1) that by (rule try_block_plain [where parse = parse and data = data])
    then show ?thesis
      using assms(2) by (simp add: on_message_rejected)
  qed
  have callback: "on_message parse hs (Some cb) data c
        = (Resolved, \<lparr>this = ?caught, calls = calls c @ [(OnInitialized, JObject m)]\<rparr>)"
    if "get m ''type'' = JString ''setup''"
      and "cb (JObject m) (?received ''setup'') = (Rejected v, e')"
  proof -
    have "try_block parse hs (Some cb) data c
            = (Rejected v, \<lparr>this = e', calls = calls c @ [(OnInitialized, JObject m)]\<rparr>)"
      using assms(1) that by (simp add: try_block_object dispatch_setup_rejected)
    then show ?thesis
      using assms(2) by (simp add: on_message_rejected)
  qed
  have setup_hook: "on_message parse hs None data c
        = (Resolved, \<lparr>this = ?caught, calls = calls c @ [(HandleSetup, JObject m)]\<rparr>)"
    if "get m ''type'' = JString ''setup''"
      and "handleSetup hs (JObject m) (init_record m (?received ''setup'')) = (Rejected v, e')"
  proof -
    have "try_block parse hs None data c
            = (Rejected v, \<lparr>this = e', calls = calls c @ [(HandleSetup, JObject m)]\<rparr>)"
      using assms(1) that by (simp add: try_block_object dispatch_setup_none init_result)
    then show ?thesis
      using assms(2) by (simp add: on_message_rejected)
  qed
  have setup_hook_after_callback: "on_message parse hs (Some cb) data c
        = (Resolved,
           \<lparr>this = ?caught,
            calls = calls c @ [(OnInitialized, JObject m), (HandleSetup, JObject m)]\<rparr>)"
    if "get m ''type'' = JString ''setup''"
      and "cb (JObject m) (?received ''setup'') = (Resolved, e1)"
      and "handleSetup hs (JObject m) (init_record m e1) = (Rejected v, e')"
  proof -
    have "try_block parse hs (Some cb) data c
            = (Rejected v,
               \<lparr>this = e', calls = calls c @ [(OnInitialized, JObject m), (HandleSetup, JObject m)]\<rparr>)"
      using assms(1) that
      by (simp add: try_block_object dispatch_setup_resolved init_result)
    then show ?thesis
      using assms(2) by (simp add: on_message_rejected)
  qed
  show ?thesis
    using plain callback setup_hook setup_hook_after_callback by blast
qed

theorem hook_failure_is_caught_and_logged_witness:
  "on_message (\<lambda>d. Inr (JObject [(''type'', JString ''dtmf''), (''digit'', JString ''1'')]))
      (base_hooks\<lparr>handleDTMF := (\<lambda>message e. (Rejected (js_error ''Error'' ''boom''), e))\<rparr>)
      None ''frame'' \<lparr>this = ConversationRelaySession 0 True, calls = []\<rparr>
     = (Resolved,
        \<lparr>this = (ConversationRelaySession 0 True)
                  \<lparr>logs := [Log [] Info (JObject [(''messageType'', JString ''dtmf'')]) ''Received message'',
                            Log [] Error (JObject [(''error'', JString ''boom'')])
                              ''Error processing message'']\<rparr>,
         calls = [(HandleDTMF, JObject [(''type'', JString ''dtmf''), (''digit'', JString ''1'')])]\<rparr>)
   \<and> fst (on_message (\<lambda>d. Inr (JObject [(''type'', JString ''setup''), (''callSid'', JString ''CA1'')]))
      (base_hooks\<lparr>handleSetup := (\<lambda>message e. (Rejected (js_error ''Error'' ''boom''), e))\<rparr>)
      (Some (\<lambda>message e. (Rejected (js_error ''Error'' ''no registry''), e)))
      ''frame'' \<lparr>this = ConversationRelaySession 0 True, calls = []\<rparr>)
     = Resolved
   \<and> fst (on_message (\<lambda>d. Inr (JObject [(''type'', JString ''setup''), (''callSid'', JString ''CA1'')]))
      (base_hooks\<lparr>handleSetup := (\<lambda>message e. (Rejected (js_error ''Error'' ''boom''), e))\<rparr>)
      None ''frame'' \<lparr>this = ConversationRelaySession 0 True, calls = []\<rparr>)
     = Resolved
   \<and> calls (snd (on_message (\<lambda>d. Inr (JObject [(''type'', JString ''setup''), (''callSid'', JString ''CA1'')]))
      (base_hooks\<lparr>handleSetup := (\<lambda>message e. (Rejected (js_error ''Error'' ''boom''), e))\<rparr>)
      (Some (\<lambda>message e. (Resolved, e)))
      ''frame'' \<lparr>this = ConversationRelaySession 0 True, calls = []\<rparr>))
     = [(OnInitialized, JObject [(''type'', JString ''setup''), (''callSid'', JString ''CA1'')]),
        (HandleSetup, JObject [(''type'', JString ''setup''), (''callSid'', JString ''CA1'')])]"
proof -
  let ?d = "[(''type'', JString ''dtmf''), (''digit'', JString ''1'')]"
  let ?s = "[(''type'', JString ''setup''), (''callSid'', JString ''CA1'')]"
  let ?pd = "\<lambda>d::string. (Inr (JObject ?d) :: string + json)"
  let ?ps = "\<lambda>d::string. (Inr (JObject ?s) :: string + json)"
  let ?boom = "\<lambda>(message::json) (e::engine). (Rejected (js_error ''Error'' ''boom''), e)"
  let ?refuse = "\<lambda>(message::json) (e::engine). (Rejected (js_error ''Error'' ''no registry''), e)"
  let ?accept = "\<lambda>(message::json) (e::engine). (Resolved, e)"
  let ?c = "\<lparr>this = ConversationRelaySession 0 True, calls = []\<rparr>"
  let ?rd = "log Info (JObject [(''messageType'', JString ''dtmf'')]) ''Received message'' (this ?c)"
  let ?rs = "log Info (JObject [(''messageType'', JString ''setup'')]) ''Received message'' (this ?c)"
  have thrown: "\<not> nullish (js_error ''Error'' ''boom'')"
    "\<not> nullish (js_error ''Error'' ''no registry'')"
    by (simp_all add: nullish_def js_error_def)
  have types: "get ?d ''type'' = JString ''dtmf''" "get ?s ''type'' = JString ''setup''"
    by (simp_all add: get_Cons)
  have messages: "opt_member (js_error ''Error'' ''boom'') ''message'' = JString ''boom''"
    by (simp add: js_error_def get_Cons)
  have dtmf: "on_message ?pd (base_hooks\<lparr>handleDTMF := ?boom\<rparr>) None ''frame'' ?c
      = (Resolved,
         \<lparr>this = log Error (JObject [(''error'', JString ''boom'')]) ''Error processing message'' ?rd,
          calls = calls ?c @ [(HandleDTMF, JObject ?d)]\<rparr>)"
    using hook_failure_is_caught_and_logged
            [where parse = ?pd and data = "''frame''" and m = ?d
               and v = "js_error ''Error'' ''boom''"
               and hs = "base_hooks\<lparr>handleDTMF := ?boom\<rparr>"
               and ty = "''dtmf''" and name = HandleDTMF and h = ?boom and c = ?c and e' = ?rd
               and onInit = None]
          thrown types messages
    by simp
  have refused: "fst (on_message ?ps (base_hooks\<lparr>handleSetup := ?boom\<rparr>) (Some ?refuse) ''frame'' ?c)
      = Resolved"
    using hook_failure_is_caught_and_logged
            [where parse = ?ps and data = "''frame''" and m = ?s
               and v = "js_error ''Error'' ''no registry''"
               and hs = "base_hooks\<lparr>handleSetup := ?boom\<rparr>"
               and cb = ?refuse and c = ?c and e' = ?rs]
          thrown types
    by simp
  have setup_only: "fst (on_message ?ps (base_hooks\<lparr>handleSetup := ?boom\<rparr>) None ''frame'' ?c)
      = Resolved"
    using hook_failure_is_caught_and_logged
            [where parse = ?ps and data = "''frame''" and m = ?s
               and v = "js_error ''Error'' ''boom''"
               and hs = "base_hooks\<lparr>handleSetup := ?boom\<rparr>"
               and c = ?c and e' = "init_record ?s ?rs"]
          thrown types
    by simp
  have after_callback:
    "calls (snd (on_message ?ps (base_hooks\<lparr>handleSetup := ?boom\<rparr>) (Some ?accept) ''frame'' ?c))
      = [(OnInitialized, JObject ?s), (HandleSetup, JObject ?s)]"
    using hook_failure_is_caught_and_logged
            [where parse = ?ps and data = "''frame''" and m = ?s
               and v = "js_error ''Error'' ''boom''"
               and hs = "base_hooks\<lparr>handleSetup := ?boom\<rparr>"
               and cb = ?accept and c = ?c and ?e1.0 = ?rs and e' = "init_record ?s ?rs"]
          thrown types
    by simp
  have recorded: "log Error (JObject [(''error'', JString ''boom'')]) ''Error processing message'' ?rd
      = (ConversationRelaySession 0 True)
          \<lparr>logs := [Log [] Info (JObject [(''messageType'', JString ''dtmf'')]) ''Received message'',
                    Log [] Error (JObject [(''error'', JString ''boom'')])
                      ''Error processing message'']\<rparr>"
    by (simp add: log_def ConversationRelaySession_def)
  show ?thesis
    using dtmf refused setup_only after_callback
    by (simp only: recorded) simp
qed

section \<open>Frames that arrive while a hook is suspended\<close>












section \<open>The setup frame\<close>

lemma session_log: "session (log lv payload text e) = session e"
  by (simp add: log_def)

lemma on_message_keeps_try_block_state:
  assumes "try_block parse hs onInit data c = (r, c')"
  shows "calls (snd (on_message parse hs onInit data c)) = calls c'
       \<and> session (this (snd (on_message parse hs onInit data c))) = session (this c')"
proof (cases r)
  case Resolved
  then show ?thesis
    using assms by (simp add: on_message_def)
next
  case (Rejected v)
  then show ?thesis
    using assms
    by (cases "member v ''message''") (simp_all add: on_message_def catch_block_def session_log)
qed

lemma get_init_record:
  "distinct (map fst m) \<Longrightarrow> has m k \<Longrightarrow> get (session (init_record m e)) k = get m k"
  by (simp add: init_record_def Let_def get_spread)

lemma try_block_setup:
  assumes "parse data = Inr (JObject m)"
    and "get m ''type'' = JString ''setup''"
    and "(case onInit of
            None \<Rightarrow> (Resolved,
                     log Info (JObject [(''messageType'', JString ''setup'')]) ''Received message'' (this c))
          | Some cb \<Rightarrow>
              cb (JObject m)
                (log Info (JObject [(''messageType'', JString ''setup'')]) ''Received message'' (this c)))
         = (Resolved, e1)"
    and "handleSetup hs (JObject m) (init_record m e1) = (r, e2)"
  shows "try_block parse hs onInit data c
           = (r, \<lparr>this = e2,
                   calls = calls c
                     @ (case onInit of None \<Rightarrow> [] | Some cb \<Rightarrow> [(OnInitialized, JObject m)])
                     @ [(HandleSetup, JObject m)]\<rparr>)"
proof (cases onInit)
  case None
  then show ?thesis
    using assms by (simp add: try_block_object dispatch_setup_none init_result)
next
  case (Some cb)
  then show ?thesis
    using assms by (simp add: try_block_object dispatch_setup_resolved init_result)
qed

lemma on_message_of_try_block:
  assumes "try_block parse hs onInit data c = (r, c')"
  shows "on_message parse hs onInit data c
           = (case r of Resolved \<Rightarrow> (Resolved, c') | Rejected v \<Rightarrow> catch_block v c')"
  using assms by (cases r) (simp_all add: on_message_def)

lemma session_catch_block: "session (this (snd (catch_block v c))) = session (this c)"
  by (cases "member v ''message''") (simp_all add: catch_block_def session_log)

lemma calls_catch_block: "calls (snd (catch_block v c)) = calls c"
  by (cases "member v ''message''") (simp_all add: catch_block_def)

lemma try_block_setup_rejected:
  assumes "parse data = Inr (JObject m)"
    and "get m ''type'' = JString ''setup''"
    and "cb (JObject m)
           (log Info (JObject [(''messageType'', JString ''setup'')]) ''Received message'' (this c))
         = (Rejected v, e')"
  shows "try_block parse hs (Some cb) data c
           = (Rejected v, \<lparr>this = e', calls = calls c @ [(OnInitialized, JObject m)]\<rparr>)"
  using assms by (simp add: try_block_object dispatch_setup_rejected)

text \<open>
  C1, as the specification states it, fails: it promises the record's identity fields for
  every valid \<^verbatim>\<open>setup\<close> frame, but \<^verbatim>\<open>init\<close> runs only after the awaited callback has
  resolved. With a callback that rejects, the rejection goes to the \<^verbatim>\<open>catch\<close> clause:
  \<^verbatim>\<open>handleSetup\<close> is never called and the record keeps the constructor's empty
  \<^verbatim>\<open>callSid\<close>, not the frame's \<^verbatim>\<open>CA123456\<close>.
\<close>

theorem rejecting_callback_leaves_record_unfilled:
  "get (session (this (snd (on_message
      (\<lambda>d. Inr (JObject [(''type'', JString ''setup''), (''callSid'', JString ''CA123456''),
                          (''sessionId'', JString ''VX789012''), (''accountSid'', JString ''AC123456''),
                          (''from'', JString ''+1234567890''), (''to'', JString ''+0987654321''),
                          (''direction'', JString ''inbound''), (''customParameters'', JObject [])]))
      base_hooks (Some (\<lambda>message e. (Rejected (js_error ''Error'' ''registry unavailable''), e)))
      ''frame'' \<lparr>this = ConversationRelaySession 0 True, calls = []\<rparr>)))) ''callSid''
     = JString ''''
   \<and> calls (snd (on_message
      (\<lambda>d. Inr (JObject [(''type'', JString ''setup''), (''callSid'', JString ''CA123456''),
                          (''sessionId'', JString ''VX789012''), (''accountSid'', JString ''AC123456''),
                          (''from'', JString ''+1234567890''), (''to'', JString ''+0987654321''),
                          (''direction'', JString ''inbound''), (''customParameters'', JObject [])]))
      base_hooks (Some (\<lambda>message e. (Rejected (js_error ''Error'' ''registry unavailable''), e)))
      ''frame'' \<lparr>this = ConversationRelaySession 0 True, calls = []\<rparr>))
     = [(OnInitialized,
         JObject [(''type'', JString ''setup''), (''callSid'', JString ''CA123456''),
                  (''sessionId'', JString ''VX789012''), (''accountSid'', JString ''AC123456''),
                  (''from'', JString ''+1234567890''), (''to'', JString ''+0987654321''),
                  (''direction'', JString ''inbound''), (''customParameters'', JObject [])])]"
proof -
  let ?m = "[(''type'', JString ''setup''), (''callSid'', JString ''CA123456''),
             (''sessionId'', JString ''VX789012''), (''accountSid'', JString ''AC123456''),
             (''from'', JString ''+1234567890''), (''to'', JString ''+0987654321''),
             (''direction'', JString ''inbound''), (''customParameters'', JObject [])]"
  let ?parse = "\<lambda>d::string. (Inr (JObject ?m) :: string + json)"
  let ?v = "js_error ''Error'' ''registry unavailable''"
  let ?cb = "\<lambda>(message::json) (e::engine). (Rejected ?v, e)"
  let ?c = "\<lparr>this = ConversationRelaySession 0 True, calls = []\<rparr>"
  let ?e1 = "log Info (JObject [(''messageType'', JString ''setup'')]) ''Received message'' (this ?c)"
  have "try_block ?parse base_hooks (Some ?cb) ''frame'' ?c
          = (Rejected ?v, \<lparr>this = ?e1, calls = calls ?c @ [(OnInitialized, JObject ?m)]\<rparr>)"
    by (rule try_block_setup_rejected [where m = ?m]) (simp_all add: get_Cons)
  then have "on_message ?parse base_hooks (Some ?cb) ''frame'' ?c
          = catch_block ?v \<lparr>this = ?e1, calls = calls ?c @ [(OnInitialized, JObject ?m)]\<rparr>"
    by (simp add: on_message_of_try_block)
  then show ?thesis
    by (simp add: session_catch_block calls_catch_block session_log ConversationRelaySession_def get_Cons)
qed

text \<open>
  C1, amended. For a frame that parses to an object of type \<^verbatim>\<open>setup\<close>, the registration
  callback, when one was given to \<^verbatim>\<open>start\<close>, is called first, once, with the parsed
  message, and awaited. If it resolves (or none was given), \<^verbatim>\<open>init\<close> runs on the state
  it left: every field of the frame, so each identity field \<^verbatim>\<open>callSid\<close>, \<^verbatim>\<open>sessionId\<close>,
  \<^verbatim>\<open>accountSid\<close>, \<^verbatim>\<open>from\<close>, \<^verbatim>\<open>to\<close>, \<^verbatim>\<open>direction\<close>, \<^verbatim>\<open>customParameters\<close> it carries,
  has the frame's value in the record on which the \<^verbatim>\<open>handleSetup\<close> hook is then called,
  once, with the same message; the state after the frame is the state that hook left
  (passed through the \<^verbatim>\<open>catch\<close> clause if the hook rejected), and the fields still have
  the frame's values if the hook did not assign the record. If the callback rejects,
  \<^verbatim>\<open>init\<close> does not run: no \<^verbatim>\<open>handleSetup\<close> call is made, and the state after the frame
  is the state the callback left, passed through the \<^verbatim>\<open>catch\<close> clause, with its record
  as the callback left it.
\<close>

theorem setup_frame_callback_then_init:
  assumes "parse data = Inr (JObject m)"
    and "get m ''type'' = JString ''setup''"
    and "distinct (map fst m)"
  shows
    "((case onInit of
         None \<Rightarrow> (Resolved,
                  log Info (JObject [(''messageType'', JString ''setup'')]) ''Received message'' (this c))
       | Some f \<Rightarrow>
           f (JObject m)
             (log Info (JObject [(''messageType'', JString ''setup'')]) ''Received message'' (this c)))
        = (Resolved, e1) \<longrightarrow>
      handleSetup hs (JObject m) (init_record m e1) = (r, e2) \<longrightarrow>
        on_message parse hs onInit data c
          = (case r of
               Resolved \<Rightarrow>
                 (Resolved,
                  \<lparr>this = e2,
                   calls = calls c
                     @ (case onInit of None \<Rightarrow> [] | Some f \<Rightarrow> [(OnInitialized, JObject m)])
                     @ [(HandleSetup, JObject m)]\<rparr>)
             | Rejected v \<Rightarrow>
                 catch_block v
                  \<lparr>this = e2,
                   calls = calls c
                     @ (case onInit of None \<Rightarrow> [] | Some f \<Rightarrow> [(OnInitialized, JObject m)])
                     @ [(HandleSetup, JObject m)]\<rparr>)
      \<and> calls (snd (on_message parse hs onInit data c))
          = calls c
            @ (case onInit of None \<Rightarrow> [] | Some f \<Rightarrow> [(OnInitialized, JObject m)])
            @ [(HandleSetup, JObject m)]
      \<and> (\<forall>k. has m k \<longrightarrow> get (session (init_record m e1)) k = get m k)
      \<and> (session e2 = session (init_record m e1) \<longrightarrow>
           (\<forall>k. has m k \<longrightarrow>
              get (session (this (snd (on_message parse hs onInit data c)))) k = get m k)))
   \<and> (cb (JObject m)
        (log Info (JObject [(''messageType'', JString ''setup'')]) ''Received message'' (this c))
        = (Rejected v', e') \<longrightarrow>
        on_message parse hs (Some cb) data c
          = catch_block v' \<lparr>this = e', calls = calls c @ [(OnInitialized, JObject m)]\<rparr>
      \<and> calls (snd (on_message parse hs (Some cb) data c)) = calls c @ [(OnInitialized, JObject m)]
      \<and> session (this (snd (on_message parse hs (Some cb) data c))) = session e')"
proof -
  let ?received = "log Info (JObject [(''messageType'', JString ''setup'')]) ''Received message'' (this c)"
  let ?after = "\<lparr>this = e2,
                 calls = calls c
                   @ (case onInit of None \<Rightarrow> [] | Some f \<Rightarrow> [(OnInitialized, JObject m)])
                   @ [(HandleSetup, JObject m)]\<rparr>"
  have resolved:
    "on_message parse hs onInit data c
       = (case r of Resolved \<Rightarrow> (Resolved, ?after) | Rejected v \<Rightarrow> catch_block v ?after)
     \<and> calls (snd (on_message parse hs onInit data c))
          = calls c
            @ (case onInit of None \<Rightarrow> [] | Some f \<Rightarrow> [(OnInitialized, JObject m)])
            @ [(HandleSetup, JObject m)]
     \<and> (\<forall>k. has m k \<longrightarrow> get (session (init_record m e1)) k = get m k)
     \<and> (session e2 = session (init_record m e1) \<longrightarrow>
          (\<forall>k. has m k \<longrightarrow>
             get (session (this (snd (on_message parse hs onInit data c)))) k = get m k))"
    if callback: "(case onInit of None \<Rightarrow> (Resolved, ?received) | Some f \<Rightarrow> f (JObject m) ?received)
                    = (Resolved, e1)"
      and hook: "handleSetup hs (JObject m) (init_record m e1) = (r, e2)"
  proof -
    note tb = try_block_setup [where parse = parse and data = data, OF assms(1,2) callback hook]
    have whole: "on_message parse hs onInit data c
       = (case r of Resolved \<Rightarrow> (Resolved, ?after) | Rejected v \<Rightarrow> catch_block v ?after)"
      using on_message_of_try_block [OF tb] .
    have spy: "calls (snd (on_message parse hs onInit data c))
          = calls c
            @ (case onInit of None \<Rightarrow> [] | Some f \<Rightarrow> [(OnInitialized, JObject m)])
            @ [(HandleSetup, JObject m)]"
      and stored: "session (this (snd (on_message parse hs onInit data c))) = session e2"
      using on_message_keeps_try_block_state [OF tb] by simp_all
    have filled: "\<forall>k. has m k \<longrightarrow> get (session (init_record m e1)) k = get m k"
      using assms(3) by (simp add: get_init_record)
    show ?thesis
      using whole spy stored filled by simp
  qed
  have rejected:
    "on_message parse hs (Some cb) data c
       = catch_block v' \<lparr>this = e', calls = calls c @ [(OnInitialized, JObject m)]\<rparr>
     \<and> calls (snd (on_message parse hs (Some cb) data c)) = calls c @ [(OnInitialized, JObject m)]
     \<and> session (this (snd (on_message parse hs (Some cb) data c))) = session e'"
    if "cb (JObject m) ?received = (Rejected v', e')"
  proof -
    have "try_block parse hs (Some cb) data c
            = (Rejected v', \<lparr>this = e', calls = calls c @ [(OnInitialized, JObject m)]\<rparr>)"
      using assms(1,2) that by (rule try_block_setup_rejected [where parse = parse and data = data])
    then have "on_message parse hs (Some cb) data c
       = catch_block v' \<lparr>this = e', calls = calls c @ [(OnInitialized, JObject m)]\<rparr>"
      by (simp add: on_message_of_try_block)
    then show ?thesis
      by (simp add: session_catch_block calls_catch_block)
  qed
  show ?thesis
    using resolved rejected by blast
qed

theorem setup_frame_callback_then_init_witness:
  "on_message
      (\<lambda>d. Inr (JObject [(''type'', JString ''setup''), (''callSid'', JString ''CA123456''),
                          (''sessionId'', JString ''VX789012''), (''accountSid'', JString ''AC123456''),
                          (''from'', JString ''+1234567890''), (''to'', JString ''+0987654321''),
                          (''direction'', JString ''inbound''),
                          (''customParameters'', JObject [(''key'', JString ''value'')])]))
      (base_hooks\<lparr>handleSetup := (\<lambda>message e. (Resolved, sendToken ''Welcome'' None None e))\<rparr>)
      (Some (\<lambda>message e. (Resolved, log Info JUndefined ''registered'' e))) ''frame''
      \<lparr>this = ConversationRelaySession 0 True, calls = []\<rparr>
     = (Resolved,
        \<lparr>this = sendToken ''Welcome'' None None
                  (init_record
                     [(''type'', JString ''setup''), (''callSid'', JString ''CA123456''),
                      (''sessionId'', JString ''VX789012''), (''accountSid'', JString ''AC123456''),
                      (''from'', JString ''+1234567890''), (''to'', JString ''+0987654321''),
                      (''direction'', JString ''inbound''),
                      (''customParameters'', JObject [(''key'', JString ''value'')])]
                     (log Info JUndefined ''registered''
                        (log Info (JObject [(''messageType'', JString ''setup'')]) ''Received message''
                           (ConversationRelaySession 0 True)))),
         calls =
           [(OnInitialized,
             JObject [(''type'', JString ''setup''), (''callSid'', JString ''CA123456''),
                      (''sessionId'', JString ''VX789012''), (''accountSid'', JString ''AC123456''),
                      (''from'', JString ''+1234567890''), (''to'', JString ''+0987654321''),
                      (''direction'', JString ''inbound''),
                      (''customParameters'', JObject [(''key'', JString ''value'')])]),
            (HandleSetup,
             JObject [(''type'', JString ''setup''), (''callSid'', JString ''CA123456''),
                      (''sessionId'', JString ''VX789012''), (''accountSid'', JString ''AC123456''),
                      (''from'', JString ''+1234567890''), (''to'', JString ''+0987654321''),
                      (''direction'', JString ''inbound''),
                      (''customParameters'', JObject [(''key'', JString ''value'')])])]\<rparr>)
   \<and> map (get (session (this (snd (on_message
      (\<lambda>d. Inr (JObject [(''type'', JString ''setup''), (''callSid'', JString ''CA123456''),
                          (''sessionId'', JString ''VX789012''), (''accountSid'', JString ''AC123456''),
                          (''from'', JString ''+1234567890''), (''to'', JString ''+0987654321''),
                          (''direction'', JString ''inbound''),
                          (''customParameters'', JObject [(''key'', JString ''value'')])]))
      (base_hooks\<lparr>handleSetup := (\<lambda>message e. (Resolved, sendToken ''Welcome'' None None e))\<rparr>)
      (Some (\<lambda>message e. (Resolved, log Info JUndefined ''registered'' e))) ''frame''
      \<lparr>this = ConversationRelaySession 0 True, calls = []\<rparr>)))))
        [''callSid'', ''sessionId'', ''accountSid'', ''from'', ''to'', ''direction'', ''customParameters'']
     = [JString ''CA123456'', JString ''VX789012'', JString ''AC123456'', JString ''+1234567890'',
        JString ''+0987654321'', JString ''inbound'', JObject [(''key'', JString ''value'')]]
   \<and> session (this (snd (on_message
      (\<lambda>d. Inr (JObject [(''type'', JString ''setup''), (''callSid'', JString ''CA123456''),
                          (''sessionId'', JString ''VX789012''), (''accountSid'', JString ''AC123456''),
                          (''from'', JString ''+1234567890''), (''to'', JString ''+0987654321''),
                          (''direction'', JString ''inbound''),
                          (''customParameters'', JObject [(''key'', JString ''value'')])]))
      base_hooks (Some (\<lambda>message e. (Rejected (js_error ''Error'' ''registry unavailable''), e)))
      ''frame'' \<lparr>this = ConversationRelaySession 0 True, calls = []\<rparr>)))
     = session (ConversationRelaySession 0 True)"
proof -
  let ?m = "[(''type'', JString ''setup''), (''callSid'', JString ''CA123456''),
             (''sessionId'', JString ''VX789012''), (''accountSid'', JString ''AC123456''),
             (''from'', JString ''+1234567890''), (''to'', JString ''+0987654321''),
             (''direction'', JString ''inbound''),
             (''customParameters'', JObject [(''key'', JString ''value'')])]"
  let ?parse = "\<lambda>d::string. (Inr (JObject ?m) :: string + json)"
  let ?register = "\<lambda>(message::json) (e::engine). (Resolved, log Info JUndefined ''registered'' e)"
  let ?refuse = "\<lambda>(message::json) (e::engine). (Rejected (js_error ''Error'' ''registry unavailable''), e)"
  let ?hs = "base_hooks\<lparr>handleSetup := (\<lambda>message e. (Resolved, sendToken ''Welcome'' None None e))\<rparr>"
  let ?c = "\<lparr>this = ConversationRelaySession 0 True, calls = []\<rparr>"
  let ?received = "log Info (JObject [(''messageType'', JString ''setup'')]) ''Received message'' (this ?c)"
  let ?e1 = "log Info JUndefined ''registered'' ?received"
  let ?e2 = "sendToken ''Welcome'' None None (init_record ?m ?e1)"
  have frame: "?parse ''frame'' = Inr (JObject ?m)" "get ?m ''type'' = JString ''setup''"
    "distinct (map fst ?m)"
    by (simp_all add: get_Cons)
  have callback: "(case Some ?register of None \<Rightarrow> (Resolved, ?received)
                   | Some f \<Rightarrow> f (JObject ?m) ?received) = (Resolved, ?e1)"
    by simp
  have hook: "handleSetup ?hs (JObject ?m) (init_record ?m ?e1) = (Resolved, ?e2)"
    by simp
  have untouched: "session ?e2 = session (init_record ?m ?e1)"
    by (simp add: sendToken_def send_def log_def)
  have refused: "?refuse (JObject ?m) ?received = (Rejected (js_error ''Error'' ''registry unavailable''), ?received)"
    by simp
  have fields: "has ?m ''callSid''" "has ?m ''sessionId''" "has ?m ''accountSid''" "has ?m ''from''"
    "has ?m ''to''" "has ?m ''direction''" "has ?m ''customParameters''"
    by (simp_all add: has_Cons)
  have start_state: "this ?c = ConversationRelaySession 0 True" "calls ?c = []"
    by simp_all
  note filled = setup_frame_callback_then_init
                  [where parse = ?parse and data = "''frame''" and onInit = "Some ?register"
                     and c = ?c and hs = ?hs and ?e1.0 = ?e1 and r = Resolved and ?e2.0 = ?e2
                     and cb = ?refuse and v' = "js_error ''Error'' ''registry unavailable''"
                     and e' = ?received, OF frame]
  note skipped = setup_frame_callback_then_init
                  [where parse = ?parse and data = "''frame''" and onInit = None
                     and c = ?c and hs = base_hooks
                     and cb = ?refuse and v' = "js_error ''Error'' ''registry unavailable''"
                     and e' = ?received, OF frame]
  have first: "on_message ?parse ?hs (Some ?register) ''frame'' ?c
      = (Resolved, \<lparr>this = ?e2, calls = [(OnInitialized, JObject ?m), (HandleSetup, JObject ?m)]\<rparr>)"
    using filled callback hook by simp
  have second: "map (get (session (this (snd (on_message ?parse ?hs (Some ?register) ''frame'' ?c)))))
        [''callSid'', ''sessionId'', ''accountSid'', ''from'', ''to'', ''direction'', ''customParameters'']
     = [JString ''CA123456'', JString ''VX789012'', JString ''AC123456'', JString ''+1234567890'',
        JString ''+0987654321'', JString ''inbound'', JObject [(''key'', JString ''value'')]]"
    using filled callback hook untouched fields by (simp add: get_Cons)
  have third: "session (this (snd (on_message ?parse base_hooks (Some ?refuse) ''frame'' ?c)))
     = session (ConversationRelaySession 0 True)"
    using skipped refused by (simp add: session_log session_catch_block)
  show ?thesis
    using first second third by (simp only: start_state) 
qed








section \<open>Resolving a session\<close>

lemma string_or_absent_cases:
  "string_or_absent v \<Longrightarrow> (\<exists>s. v = JString s) \<or> v = JUndefined \<or> v = JNull"
  by (cases v) (simp_all add: string_or_absent_def)

lemma or_else_first_nonempty:
  assumes "string_or_absent a" and "string_or_absent b"
  shows "coalesce (or_else a b) (JString '''') = (case filter truthy [a, b] of [] \<Rightarrow> JString '''' | v # _ \<Rightarrow> v)"
  using string_or_absent_cases [OF assms(1)] string_or_absent_cases [OF assms(2)]
  by (auto simp: or_else_def coalesce_def nullish_def)

lemma or_else3_first_nonempty:
  assumes "string_or_absent a" and "string_or_absent b" and "string_or_absent c"
  shows "coalesce (or_else (or_else a b) c) (JString '''')
           = (case filter truthy [a, b, c] of [] \<Rightarrow> JString '''' | v # _ \<Rightarrow> v)"
  using string_or_absent_cases [OF assms(1)] string_or_absent_cases [OF assms(2)]
        string_or_absent_cases [OF assms(3)]
  by (auto simp: or_else_def coalesce_def nullish_def)

lemma or_else4_first_nonempty:
  assumes "string_or_absent a" and "string_or_absent b" and "string_or_absent c"
    and "string_or_absent d"
  shows "coalesce (or_else (or_else (or_else a b) c) d) (JString '''')
           = (case filter truthy [a, b, c, d] of [] \<Rightarrow> JString '''' | v # _ \<Rightarrow> v)"
  using string_or_absent_cases [OF assms(1)] string_or_absent_cases [OF assms(2)]
        string_or_absent_cases [OF assms(3)] string_or_absent_cases [OF assms(4)]
  by (auto simp: or_else_def coalesce_def nullish_def)

lemma first_nonempty_string:
  assumes "list_all (\<lambda>f. string_or_absent (get payload f)) names"
  shows "\<exists>s. first_nonempty names payload = JString s"
  using assms
proof (induction names)
  case Nil
  show ?case by (simp add: first_nonempty_def)
next
  case (Cons f names)
  then have "string_or_absent (get payload f)"
    by simp
  from string_or_absent_cases [OF this] Cons show ?case
    by (auto simp: first_nonempty_def)
qed

lemma startsWith_string: "startsWith var (JString s) p = Inr (has_prefix p (JString s))"
  by (simp add: startsWith_def has_prefix_def)

lemma from_fallback_first_nonempty:
  assumes "string_or_absent (get payload ''From'')" and "string_or_absent (get payload ''from'')"
  shows "from_fallback activeSessions (JObject payload)
           = (let from = first_nonempty [''From'', ''from''] payload
              in if from = JString '''' then None else map_get activeSessions from)"
proof -
  obtain s where s: "first_nonempty [''From'', ''from''] payload = JString s"
    using first_nonempty_string [of payload "[''From'', ''from'']"] assms by auto
  have "coalesce (or_else (get payload ''From'') (get payload ''from'')) (JString '''') = JString s"
    using or_else_first_nonempty [OF assms] s by (simp add: first_nonempty_def)
  then show ?thesis
    by (simp add: from_fallback_def s Let_def)
qed

lemma resolve_CallSid:
  assumes "string_fields payload"
  shows "getActiveSession activeSessions CallSid (JObject payload) None
           = Inr (resolve_with first_nonempty activeSessions CallSid payload)"
proof -
  have strings: "string_or_absent (get payload ''CallSid'')" "string_or_absent (get payload ''Sid'')"
    "string_or_absent (get payload ''callSid'')" "string_or_absent (get payload ''sid'')"
    "string_or_absent (get payload ''From'')" "string_or_absent (get payload ''from'')"
    using assms by (simp_all add: string_fields_def)
  obtain s where s: "first_nonempty [''CallSid'', ''Sid'', ''callSid'', ''sid''] payload = JString s"
    using first_nonempty_string [of payload "[''CallSid'', ''Sid'', ''callSid'', ''sid'']"] strings
    by auto
  have candidate: "coalesce (or_else (or_else (or_else (get payload ''CallSid'') (get payload ''Sid''))
                      (get payload ''callSid'')) (get payload ''sid'')) (JString '''') = JString s"
    using or_else4_first_nonempty [OF strings(1-4)] s by (simp add: first_nonempty_def)
  show ?thesis
  proof (cases "has_prefix ''CA'' (JString s)")
    case True
    then show ?thesis
      by (simp add: getActiveSession_def candidate startsWith_string resolve_with_def s Let_def)
  next
    case False
    then show ?thesis
      by (simp add: getActiveSession_def candidate startsWith_string resolve_with_def s Let_def
          sessionId_step_def from_fallback_first_nonempty [OF strings(5,6)])
  qed
qed

lemma resolve_SessionId:
  assumes "string_fields payload"
  shows "getActiveSession activeSessions SessionId (JObject payload) None
           = Inr (resolve_with first_nonempty activeSessions SessionId payload)"
proof -
  have strings: "string_or_absent (get payload ''sessionId'')"
    "string_or_absent (get payload ''SessionId'')" "string_or_absent (get payload ''id'')"
    "string_or_absent (get payload ''From'')" "string_or_absent (get payload ''from'')"
    using assms by (simp_all add: string_fields_def)
  obtain s where s: "first_nonempty [''sessionId'', ''SessionId'', ''id''] payload = JString s"
    using first_nonempty_string [of payload "[''sessionId'', ''SessionId'', ''id'']"] strings
    by auto
  let ?first_two = "or_else (get payload ''sessionId'') (get payload ''SessionId'')"
  have candidate: "coalesce (or_else ?first_two (get payload ''id'')) (JString '''') = JString s"
    using or_else3_first_nonempty [OF strings(1-3)] s by (simp add: first_nonempty_def)
  have step: "sessionId_step activeSessions SessionId (JObject payload)
                = Inr (if has_prefix ''VX'' (JString s) then map_get activeSessions (JString s)
                       else from_fallback activeSessions (JObject payload))"
  proof (cases "truthy ?first_two")
    case True
    then have "coalesce ?first_two (JString '''') = JString s"
      using candidate by (simp add: or_else_def [of ?first_two])
    then show ?thesis
      using True by (simp add: sessionId_step_def Let_def startsWith_string)
  next
    case False
    then have "coalesce (get payload ''id'') (JString '''') = JString s"
      using candidate by (simp add: or_else_def [of ?first_two])
    then show ?thesis
      using False by (simp add: sessionId_step_def Let_def startsWith_string)
  qed
  show ?thesis
    by (simp add: getActiveSession_def step resolve_with_def s Let_def
        from_fallback_first_nonempty [OF strings(4,5)])
qed

lemma resolve_From:
  assumes "string_fields payload"
  shows "getActiveSession activeSessions From (JObject payload) None
           = Inr (resolve_with first_nonempty activeSessions From payload)"
proof -
  have strings: "string_or_absent (get payload ''From'')" "string_or_absent (get payload ''from'')"
    using assms by (simp_all add: string_fields_def)
  show ?thesis
    by (simp add: getActiveSession_def sessionId_step_def resolve_with_def Let_def
        from_fallback_first_nonempty [OF strings])
qed

lemma empty_key_is_no_key:
  "getActiveSession activeSessions policy body (Some '''')
     = getActiveSession activeSessions policy body None"
  by (simp add: getActiveSession_def)

text \<open>
  C2, as the specification states it, fails. Under policy \<^verbatim>\<open>CallSid\<close>, with the payload
  \<^verbatim>\<open>{CallSid: "", Sid: "CA1"}\<close> and a session registered under \<^verbatim>\<open>CA1\<close>: the first
  present value is the empty \<^verbatim>\<open>CallSid\<close>, which has no prefix \<^verbatim>\<open>CA\<close>, and neither
  \<^verbatim>\<open>From\<close> nor \<^verbatim>\<open>from\<close> is there, so the specification's derivation finds nothing; the
  code's \<^verbatim>\<open>||\<close> skips the empty string and finds the session under \<^verbatim>\<open>Sid\<close>.
\<close>

theorem empty_CallSid_is_skipped_not_taken:
  "getActiveSession [''CA1'' \<mapsto> (1::nat)] CallSid
       (JObject [(''CallSid'', JString ''''), (''Sid'', JString ''CA1'')]) None
     = Inr (Some 1)
   \<and> resolve_with first_present [''CA1'' \<mapsto> (1::nat)] CallSid
       [(''CallSid'', JString ''''), (''Sid'', JString ''CA1'')]
     = None"
proof -
  have code: "getActiveSession [''CA1'' \<mapsto> (1::nat)] CallSid
       (JObject [(''CallSid'', JString ''''), (''Sid'', JString ''CA1'')]) None = Inr (Some 1)"
    by (simp add: getActiveSession_def get_Cons get_Nil or_else_def coalesce_def nullish_def
        startsWith_def map_get_def)
  have words: "resolve_with first_present [''CA1'' \<mapsto> (1::nat)] CallSid
       [(''CallSid'', JString ''''), (''Sid'', JString ''CA1'')] = None"
    by (simp add: resolve_with_def first_present_def get_Cons get_Nil nullish_def has_prefix_def)
  show ?thesis
    using code words by simp
qed

text \<open>
  C2, amended. For a payload whose fields are strings, and no explicit key (none, or the
  empty string): under policy \<^verbatim>\<open>CallSid\<close> the candidate is the first non-empty value
  among \<^verbatim>\<open>CallSid\<close>, \<^verbatim>\<open>Sid\<close>, \<^verbatim>\<open>callSid\<close>, \<^verbatim>\<open>sid\<close> (an empty value is skipped like a
  missing one; the empty string when there is none) and is looked up only if it starts
  with \<^verbatim>\<open>CA\<close>; under policy \<^verbatim>\<open>SessionId\<close> the same with \<^verbatim>\<open>sessionId\<close>, \<^verbatim>\<open>SessionId\<close>,
  \<^verbatim>\<open>id\<close> and \<^verbatim>\<open>VX\<close>; when the prefix fails, and under policy \<^verbatim>\<open>From\<close>, the first
  non-empty value of \<^verbatim>\<open>From\<close>, \<^verbatim>\<open>from\<close> is looked up; with no candidate the result is
  absent. The resolver does not throw on such a payload.
\<close>

theorem resolver_takes_first_nonempty_candidate:
  assumes "string_fields payload"
    and "sessionId = None \<or> sessionId = Some ''''"
  shows "getActiveSession activeSessions policy (JObject payload) sessionId
           = Inr (resolve_with first_nonempty activeSessions policy payload)"
proof -
  have "getActiveSession activeSessions policy (JObject payload) sessionId
          = getActiveSession activeSessions policy (JObject payload) None"
    using assms(2) by (auto simp: empty_key_is_no_key)
  also have "\<dots> = Inr (resolve_with first_nonempty activeSessions policy payload)"
    using assms(1) by (cases policy) (simp_all add: resolve_CallSid resolve_SessionId resolve_From)
  finally show ?thesis .
qed

theorem resolver_takes_first_nonempty_candidate_witness:
  "string_fields [(''CallSid'', JString ''''), (''Sid'', JString ''CA1'')]
   \<and> getActiveSession [''CA1'' \<mapsto> (1::nat)] CallSid
       (JObject [(''CallSid'', JString ''''), (''Sid'', JString ''CA1'')]) None
     = Inr (resolve_with first_nonempty [''CA1'' \<mapsto> (1::nat)] CallSid
              [(''CallSid'', JString ''''), (''Sid'', JString ''CA1'')])
   \<and> resolve_with first_nonempty [''CA1'' \<mapsto> (1::nat)] CallSid
       [(''CallSid'', JString ''''), (''Sid'', JString ''CA1'')] = Some 1
   \<and> getActiveSession [''+1'' \<mapsto> (2::nat)] SessionId
       (JObject [(''SessionId'', JString ''XX2''), (''From'', JString ''+1'')]) (Some '''')
     = Inr (resolve_with first_nonempty [''+1'' \<mapsto> (2::nat)] SessionId
              [(''SessionId'', JString ''XX2''), (''From'', JString ''+1'')])
   \<and> resolve_with first_nonempty [''+1'' \<mapsto> (2::nat)] SessionId
       [(''SessionId'', JString ''XX2''), (''From'', JString ''+1'')] = Some 2"
proof -
  have strings: "string_fields [(''CallSid'', JString ''''), (''Sid'', JString ''CA1'')]"
    "string_fields [(''SessionId'', JString ''XX2''), (''From'', JString ''+1'')]"
    by (simp_all add: string_fields_def string_or_absent_def get_Cons get_Nil)
  have found: "resolve_with first_nonempty [''CA1'' \<mapsto> (1::nat)] CallSid
       [(''CallSid'', JString ''''), (''Sid'', JString ''CA1'')] = Some 1"
    by (simp add: resolve_with_def first_nonempty_def get_Cons get_Nil has_prefix_def map_get_def)
  have fallen_back: "resolve_with first_nonempty [''+1'' \<mapsto> (2::nat)] SessionId
       [(''SessionId'', JString ''XX2''), (''From'', JString ''+1'')] = Some 2"
    by (simp add: resolve_with_def first_nonempty_def get_Cons get_Nil has_prefix_def map_get_def)
  show ?thesis
    using resolver_takes_first_nonempty_candidate
            [OF strings(1), of None "[''CA1'' \<mapsto> (1::nat)]" CallSid]
          resolver_takes_first_nonempty_candidate
            [OF strings(2), of "Some ''''" "[''+1'' \<mapsto> (2::nat)]" SessionId]
          strings found fallen_back
    by simp
qed

text \<open>
  C3 does not hold of the code. Under policy \<^verbatim>\<open>SessionId\<close>, a request without a body
  and no explicit key: \<^verbatim>\<open>body?.sessionId\<close> and \<^verbatim>\<open>body?.SessionId\<close> are \<^verbatim>\<open>undefined\<close>, and
  the third operand \<^verbatim>\<open>body.id\<close>, written without \<^verbatim>\<open>?.\<close>, throws a \<^verbatim>\<open>TypeError\<close>: the
  resolver's promise rejects.
\<close>

theorem resolver_throws_without_body_under_SessionId:
  "getActiveSession activeSessions SessionId JUndefined None
     = Inl (js_error ''TypeError'' ''Cannot read properties of undefined (reading 'id')'')
   \<and> getActiveSession activeSessions SessionId JNull (Some '''')
     = Inl (js_error ''TypeError'' ''Cannot read properties of null (reading 'id')'')"
  by (simp add: getActiveSession_def sessionId_step_def or_else_def cannot_read_def)

end
